theory Spec2Isabelle
  imports Main "HOL-Library.Char_ord"
begin

section \<open>Strings of the source language\<close>

text \<open>
  A source string is modelled as the list of its bytes (\<^typ>\<open>string\<close>). The scanners
  only ever look for ASCII delimiters, ASCII white space and ASCII word characters, so
  the model covers ASCII white space and ASCII letter case; a character outside ASCII
  is an opaque run of bytes that no operation below inspects.
\<close>

definition isSpace :: "char \<Rightarrow> bool" where
  \<comment> \<open>the class \<^verbatim>\<open>\s\<close> and the characters removed by \<^verbatim>\<open>trim()\<close>\<close>
  "isSpace c = (c = CHR '' '' \<or> c = CHR 0x09 \<or> c = CHR 0x0A \<or> c = CHR 0x0B
      \<or> c = CHR 0x0C \<or> c = CHR 0x0D)"

definition isWord :: "char \<Rightarrow> bool" where
  \<comment> \<open>the class \<^verbatim>\<open>\w\<close>\<close>
  "isWord c = ((CHR ''a'' \<le> c \<and> c \<le> CHR ''z'') \<or> (CHR ''A'' \<le> c \<and> c \<le> CHR ''Z'')
      \<or> (CHR ''0'' \<le> c \<and> c \<le> CHR ''9'') \<or> c = CHR ''_'')"

definition isAlpha :: "char \<Rightarrow> bool" where
  \<comment> \<open>the class \<^verbatim>\<open>[a-zA-Z]\<close>\<close>
  "isAlpha c = ((CHR ''a'' \<le> c \<and> c \<le> CHR ''z'') \<or> (CHR ''A'' \<le> c \<and> c \<le> CHR ''Z''))"

text \<open>
  The ASCII letters differ from their other case in the bit of value 32 only
  (\<open>CHR ''a''\<close> is 97, \<open>CHR ''A''\<close> is 65).
\<close>

definition toLowerChar :: "char \<Rightarrow> char" where
  "toLowerChar c =
     (if CHR ''A'' \<le> c \<and> c \<le> CHR ''Z''
      then (case c of Char b0 b1 b2 b3 b4 b5 b6 b7 \<Rightarrow> Char b0 b1 b2 b3 b4 True b6 b7)
      else c)"

definition toUpperChar :: "char \<Rightarrow> char" where
  "toUpperChar c =
     (if CHR ''a'' \<le> c \<and> c \<le> CHR ''z''
      then (case c of Char b0 b1 b2 b3 b4 b5 b6 b7 \<Rightarrow> Char b0 b1 b2 b3 b4 False b6 b7)
      else c)"

definition toLowerCase :: "string \<Rightarrow> string" where
  "toLowerCase s = map toLowerChar s"

definition trim :: "string \<Rightarrow> string" where
  "trim s = rev (dropWhile isSpace (rev (dropWhile isSpace s)))"

fun startsWith :: "string \<Rightarrow> string \<Rightarrow> bool" where
  "startsWith s [] = True"
| "startsWith [] (p # ps) = False"
| "startsWith (x # xs) (p # ps) = (x = p \<and> startsWith xs ps)"

fun includesStr :: "string \<Rightarrow> string \<Rightarrow> bool" where
  "includesStr [] p = (p = [])"
| "includesStr (x # xs) p = (startsWith (x # xs) p \<or> includesStr xs p)"

fun indexOfFrom :: "int \<Rightarrow> string \<Rightarrow> string \<Rightarrow> int" where
  "indexOfFrom i [] p = (if p = [] then i else - 1)"
| "indexOfFrom i (x # xs) p = (if startsWith (x # xs) p then i else indexOfFrom (i + 1) xs p)"

definition indexOf :: "string \<Rightarrow> string \<Rightarrow> int" where
  \<comment> \<open>\<^verbatim>\<open>s.indexOf(p)\<close>: the first position of \<open>p\<close> in \<open>s\<close>, or -1\<close>
  "indexOf s p = indexOfFrom 0 s p"

fun lastIndexOfFrom :: "int \<Rightarrow> int \<Rightarrow> string \<Rightarrow> string \<Rightarrow> int" where
  "lastIndexOfFrom best i [] p = (if p = [] then i else best)"
| "lastIndexOfFrom best i (x # xs) p =
     lastIndexOfFrom (if startsWith (x # xs) p then i else best) (i + 1) xs p"

definition lastIndexOf :: "string \<Rightarrow> string \<Rightarrow> int" where
  \<comment> \<open>\<^verbatim>\<open>s.lastIndexOf(p)\<close>: the last position of \<open>p\<close> in \<open>s\<close>, or -1\<close>
  "lastIndexOf s p = lastIndexOfFrom (- 1) 0 s p"

definition substringFrom :: "string \<Rightarrow> int \<Rightarrow> string" where
  \<comment> \<open>\<^verbatim>\<open>s.substring(i)\<close>: a negative start counts as 0, a start past the end gives the empty string\<close>
  "substringFrom s i = drop (nat i) s"

definition substring :: "string \<Rightarrow> int \<Rightarrow> int \<Rightarrow> string" where
  \<comment> \<open>\<^verbatim>\<open>s.substring(i, j)\<close>: both ends clamped to the string, swapped when \<open>i > j\<close>\<close>
  "substring s i j =
     (let a = min (nat i) (length s); b = min (nat j) (length s)
      in take (max a b - min a b) (drop (min a b) s))"

fun splitAcc :: "string \<Rightarrow> string \<Rightarrow> string list" where
  "splitAcc cur [] = [rev cur]"
| "splitAcc cur (c # cs) =
     (if c = CHR 0x0A then rev cur # splitAcc [] cs else splitAcc (c # cur) cs)"

definition splitLines :: "string \<Rightarrow> string list" where
  \<comment> \<open>\<^verbatim>\<open>s.split('\n')\<close>\<close>
  "splitLines s = splitAcc [] s"

fun join :: "string \<Rightarrow> string list \<Rightarrow> string" where
  "join sep [] = []"
| "join sep [x] = x"
| "join sep (x # y # ys) = x @ sep @ join sep (y # ys)"

function replaceSpaces :: "string \<Rightarrow> string" where
  \<comment> \<open>\<^verbatim>\<open>s.replace(/\s+/g, ' ')\<close>\<close>
  "replaceSpaces [] = []"
| "replaceSpaces (c # cs) =
     (if isSpace c then CHR '' '' # replaceSpaces (dropWhile isSpace cs)
      else c # replaceSpaces cs)"
  by pat_completeness auto
termination
  by (relation "measure length") (auto simp: length_dropWhile_le less_Suc_eq_le)

definition countChar :: "char \<Rightarrow> string \<Rightarrow> int" where
  \<comment> \<open>\<^verbatim>\<open>(s.match(/c/g) || []).length\<close> for a single character \<open>c\<close>\<close>
  "countChar c s = int (length (filter (\<lambda>x. x = c) s))"

definition braceDelta :: "string \<Rightarrow> int" where
  \<comment> \<open>opening minus closing braces of a line\<close>
  "braceDelta s = countChar CHR ''{'' s - countChar CHR ''}'' s"


section \<open>Regular expressions\<close>

text \<open>
  The source classifies lines with regular expressions. They are embedded as values
  of \<open>rx\<close> and run by a backtracking matcher that follows the ECMAScript
  semantics: alternatives left to right, greedy quantifiers longest first, lazy
  quantifiers shortest first, an iteration of a quantifier that consumes nothing is
  rejected, and the first successful path fixes the captures.
\<close>

datatype rx =
    Chr char              \<comment> \<open>a literal character\<close>
  | ChrI char             \<comment> \<open>a literal character under the flag \<^verbatim>\<open>i\<close>\<close>
  | Cls "char \<Rightarrow> bool"    \<comment> \<open>a character class\<close>
  | Seq rx rx
  | Alt rx rx
  | Star rx               \<comment> \<open>\<^verbatim>\<open>r*\<close>\<close>
  | Lazy rx               \<comment> \<open>\<^verbatim>\<open>r*?\<close>\<close>
  | Grp nat rx            \<comment> \<open>capture group number \<open>n\<close>\<close>
  | Bol                   \<comment> \<open>\<^verbatim>\<open>^\<close>\<close>
  | Eol                   \<comment> \<open>\<^verbatim>\<open>$\<close>\<close>
  | Eps

text \<open>
  The matcher works on a stack of pending work: regular expressions still to match,
  the end of an open capture group (with the input at its start) and the progress
  check of a quantifier (with the input length before the iteration).
\<close>

datatype frame = R rx | Close nat string | Check nat

type_synonym captures = "(nat \<times> string) list"

primrec rxSize :: "rx \<Rightarrow> nat" where
  "rxSize (Chr a) = 1"
| "rxSize (ChrI a) = 1"
| "rxSize (Cls p) = 1"
| "rxSize (Seq a b) = rxSize a + rxSize b + 1"
| "rxSize (Alt a b) = rxSize a + rxSize b + 1"
| "rxSize (Star r) = rxSize r + 2"
| "rxSize (Lazy r) = rxSize r + 2"
| "rxSize (Grp n r) = rxSize r + 2"
| "rxSize Bol = 1"
| "rxSize Eol = 1"
| "rxSize Eps = 1"

fun weight :: "frame list \<Rightarrow> nat \<Rightarrow> nat" where
  "weight [] l = 0"
| "weight (R r # k) l = rxSize r + weight k l"
| "weight (Close n s # k) l = 1 + weight k l"
| "weight (Check n # k) l = (if l < n then 1 + weight k l else 0)"

function (sequential) rxRun :: "frame list \<Rightarrow> bool \<Rightarrow> string \<Rightarrow> captures
    \<Rightarrow> (string \<times> captures) option" where
  \<comment> \<open>\<open>rxRun k b s c\<close>: match the stack \<open>k\<close> against the input \<open>s\<close>; \<open>b\<close> says that
      \<open>s\<close> starts at the beginning of the whole input. The result is the rest of the input
      and the captures.\<close>
  "rxRun [] b s c = Some (s, c)"
| "rxRun (R (Chr a) # k) b s c =
     (case s of [] \<Rightarrow> None | x # xs \<Rightarrow> if x = a then rxRun k False xs c else None)"
| "rxRun (R (ChrI a) # k) b s c =
     (case s of [] \<Rightarrow> None
      | x # xs \<Rightarrow> if toUpperChar x = toUpperChar a then rxRun k False xs c else None)"
| "rxRun (R (Cls p) # k) b s c =
     (case s of [] \<Rightarrow> None | x # xs \<Rightarrow> if p x then rxRun k False xs c else None)"
| "rxRun (R (Seq r1 r2) # k) b s c = rxRun (R r1 # R r2 # k) b s c"
| "rxRun (R (Alt r1 r2) # k) b s c =
     (case rxRun (R r1 # k) b s c of Some res \<Rightarrow> Some res | None \<Rightarrow> rxRun (R r2 # k) b s c)"
| "rxRun (R (Star r) # k) b s c =
     (case rxRun (R r # Check (length s) # R (Star r) # k) b s c of
        Some res \<Rightarrow> Some res
      | None \<Rightarrow> rxRun k b s c)"
| "rxRun (R (Lazy r) # k) b s c =
     (case rxRun k b s c of
        Some res \<Rightarrow> Some res
      | None \<Rightarrow> rxRun (R r # Check (length s) # R (Lazy r) # k) b s c)"
| "rxRun (R (Grp n r) # k) b s c = rxRun (R r # Close n s # k) b s c"
| "rxRun (R Bol # k) b s c = (if b then rxRun k b s c else None)"
| "rxRun (R Eol # k) b s c = (if s = [] then rxRun k b s c else None)"
| "rxRun (R Eps # k) b s c = rxRun k b s c"
| "rxRun (Close n s0 # k) b s c = rxRun k b s ((n, take (length s0 - length s) s0) # c)"
| "rxRun (Check n # k) b s c = (if length s < n then rxRun k b s c else None)"
  by pat_completeness auto
termination
  by (relation "measures [\<lambda>(k, b, s, c). length s, \<lambda>(k, b, s, c). weight k (length s)]") auto

fun rxSearch :: "rx \<Rightarrow> bool \<Rightarrow> string \<Rightarrow> (string \<times> string \<times> captures) option" where
  \<comment> \<open>the leftmost match: the input from the start of the match, the input after the
      match, and the captures (group 0 is the whole match)\<close>
  "rxSearch r b s =
     (case rxRun [R (Grp 0 r)] b s [] of
        Some (rest, c) \<Rightarrow> Some (s, rest, c)
      | None \<Rightarrow> (case s of [] \<Rightarrow> None | x # xs \<Rightarrow> rxSearch r False xs))"

declare rxSearch.simps [simp del]

definition rxMatch :: "rx \<Rightarrow> string \<Rightarrow> captures option" where
  \<comment> \<open>\<^verbatim>\<open>s.match(r)\<close> without the flag \<^verbatim>\<open>g\<close>: the captures of the leftmost match, or null\<close>
  "rxMatch r s = map_option (\<lambda>(at, rest, c). c) (rxSearch r True s)"

definition rxTest :: "rx \<Rightarrow> string \<Rightarrow> bool" where
  \<comment> \<open>\<^verbatim>\<open>r.test(s)\<close>\<close>
  "rxTest r s = (rxSearch r True s \<noteq> None)"

definition grp :: "captures \<Rightarrow> nat \<Rightarrow> string option" where
  \<comment> \<open>\<^verbatim>\<open>match[n]\<close>; \<open>None\<close> is \<^verbatim>\<open>undefined\<close>, a group that took no part in the match\<close>
  "grp c n = map_of c n"

function rxMatchAll :: "rx \<Rightarrow> bool \<Rightarrow> string \<Rightarrow> captures list" where
  \<comment> \<open>\<^verbatim>\<open>s.matchAll(r)\<close> with the flag \<^verbatim>\<open>g\<close>: the search resumes after each match, one
      character further on after an empty match, and ends with the input\<close>
  "rxMatchAll r b s =
     (case rxSearch r b s of
        None \<Rightarrow> []
      | Some (at, rest, c) \<Rightarrow>
          c # (let next = (if length rest < length at then rest else drop 1 rest)
               in if length next < length s then rxMatchAll r False next else []))"
  by pat_completeness auto
termination
  by (relation "measure (\<lambda>(r, b, s). length s)") auto

declare rxMatchAll.simps [simp del]

text \<open>Abbreviations for the shapes the source's expressions are built from.\<close>

fun lit :: "string \<Rightarrow> rx" where
  "lit [] = Eps"
| "lit [a] = Chr a"
| "lit (a # b # bs) = Seq (Chr a) (lit (b # bs))"

fun litI :: "string \<Rightarrow> rx" where
  "litI [] = Eps"
| "litI [a] = ChrI a"
| "litI (a # b # bs) = Seq (ChrI a) (litI (b # bs))"

fun alts :: "rx list \<Rightarrow> rx" where
  "alts [] = Eps"
| "alts [r] = r"
| "alts (r # q # qs) = Alt r (alts (q # qs))"

fun seqs :: "rx list \<Rightarrow> rx" where
  "seqs [] = Eps"
| "seqs [r] = r"
| "seqs (r # q # qs) = Seq r (seqs (q # qs))"

definition Plus :: "rx \<Rightarrow> rx" where
  \<comment> \<open>\<^verbatim>\<open>r+\<close>\<close>
  "Plus r = Seq r (Star r)"

definition LazyPlus :: "rx \<Rightarrow> rx" where
  \<comment> \<open>\<^verbatim>\<open>r+?\<close>\<close>
  "LazyPlus r = Seq r (Lazy r)"

definition Opt :: "rx \<Rightarrow> rx" where
  \<comment> \<open>\<^verbatim>\<open>r?\<close>\<close>
  "Opt r = Alt r Eps"

definition noneOf :: "string \<Rightarrow> rx" where
  \<comment> \<open>\<^verbatim>\<open>[^...]\<close>\<close>
  "noneOf cs = Cls (\<lambda>c. c \<notin> set cs)"

definition oneOf :: "string \<Rightarrow> rx" where
  \<comment> \<open>\<^verbatim>\<open>[...]\<close>\<close>
  "oneOf cs = Cls (\<lambda>c. c \<in> set cs)"

definition ws :: rx where
  \<comment> \<open>\<^verbatim>\<open>\s\<close>\<close>
  "ws = Cls isSpace"

definition wd :: rx where
  \<comment> \<open>\<^verbatim>\<open>\w\<close>\<close>
  "wd = Cls isWord"

definition anyChar :: rx where
  \<comment> \<open>\<^verbatim>\<open>[\s\S]\<close>\<close>
  "anyChar = Cls (\<lambda>c. True)"


section \<open>Code elements (fileStructureParser)\<close>

datatype CodeElementType =
  Class | Interface | Method | Property | Variable | Function | Namespace | Enum
  | Constructor | Field | Module

datatype AccessModifier = Public | Private | Protected | Internal | Default

text \<open>
  The interface \<^verbatim>\<open>CodeElement\<close>. An optional field is an \<open>option\<close>, \<open>None\<close> being
  \<^verbatim>\<open>undefined\<close>; \<open>children\<close> is always set by the code that builds elements.
\<close>

datatype CodeElement = CodeElement
  (el_name: string)
  (el_type: CodeElementType)
  (el_accessModifier: AccessModifier)
  (el_line: int)
  (el_children: "CodeElement list")
  (el_comment: "string option")
  (el_returnType: "string option")
  (el_parameters: "string option")
  (el_returns: "string option")
  (el_params: "(string \<times> string) list option")

definition plainElement :: "string \<Rightarrow> CodeElementType \<Rightarrow> int \<Rightarrow> string option \<Rightarrow> CodeElement list
    \<Rightarrow> CodeElement" where
  \<comment> \<open>the object literal \<^verbatim>\<open>{ name, type, accessModifier: AccessModifier.Default, line, comment, children }\<close>\<close>
  "plainElement name ty line comment children =
     CodeElement name ty Default line children comment None None None None"

definition setChildren :: "CodeElement \<Rightarrow> CodeElement list \<Rightarrow> CodeElement" where
  \<comment> \<open>\<^verbatim>\<open>element.children = cs\<close>\<close>
  "setChildren e cs =
     CodeElement (el_name e) (el_type e) (el_accessModifier e) (el_line e) cs (el_comment e)
       (el_returnType e) (el_parameters e) (el_returns e) (el_params e)"

definition truthy :: "string option \<Rightarrow> bool" where
  \<comment> \<open>the truth value of an optional string: neither \<^verbatim>\<open>undefined\<close> nor empty\<close>
  "truthy v = (case v of None \<Rightarrow> False | Some s \<Rightarrow> s \<noteq> [])"

datatype error = TypeError | DanglingReference

text \<open>
  A function of the source that can throw returns \<open>error + 'a\<close>. \<open>TypeError\<close> is what
  reading a property of \<^verbatim>\<open>undefined\<close> throws: an element of an array read out of range,
  a capture group that took no part in the match. The scanners hold references to
  elements that are already part of the tree they build; a reference is modelled as
  the path of child indices from the root list, and \<open>DanglingReference\<close> is the
  reading of a path that leads nowhere (the source has no such case: its references
  are object identities).
\<close>

definition nthOpt :: "'a list \<Rightarrow> nat \<Rightarrow> 'a option" where
  \<comment> \<open>\<^verbatim>\<open>xs[i]\<close>, \<open>None\<close> being \<^verbatim>\<open>undefined\<close>\<close>
  "nthOpt xs i = (if i < length xs then Some (xs ! i) else None)"

primrec getAt :: "nat list \<Rightarrow> CodeElement list \<Rightarrow> CodeElement option" where
  \<comment> \<open>the element a path refers to\<close>
  "getAt [] es = None"
| "getAt (i # p) es =
     (case nthOpt es i of
        None \<Rightarrow> None
      | Some e \<Rightarrow> if p = [] then Some e else getAt p (el_children e))"

primrec pushAt :: "nat list \<Rightarrow> CodeElement \<Rightarrow> CodeElement list \<Rightarrow> CodeElement list" where
  \<comment> \<open>\<^verbatim>\<open>ref.children.push(e)\<close> for the element the path refers to; the empty path is
      the root list itself\<close>
  "pushAt [] e es = es @ [e]"
| "pushAt (i # p) e es =
     (case nthOpt es i of
        None \<Rightarrow> es
      | Some x \<Rightarrow> es[i := setChildren x (pushAt p e (el_children x))])"

primrec setChildrenAt :: "nat list \<Rightarrow> CodeElement list \<Rightarrow> CodeElement list \<Rightarrow> CodeElement list" where
  \<comment> \<open>\<^verbatim>\<open>ref.children = cs\<close> for the element the path refers to\<close>
  "setChildrenAt [] cs es = es"
| "setChildrenAt (i # p) cs es =
     (case nthOpt es i of
        None \<Rightarrow> es
      | Some x \<Rightarrow> es[i := (if p = [] then setChildren x cs
                             else setChildren x (setChildrenAt p cs (el_children x)))])"


section \<open>BaseParser\<close>

definition extractAccessModifier :: "string \<Rightarrow> AccessModifier" where
  "extractAccessModifier line =
     (if includesStr line ''public'' then Public
      else if includesStr line ''private'' then Private
      else if includesStr line ''protected'' then Protected
      else if includesStr line ''internal'' then Internal
      else Default)"

function stripLeading :: "char \<Rightarrow> string \<Rightarrow> string" where
  \<comment> \<open>\<^verbatim>\<open>while (s.startsWith(ch)) { s = s.substring(1).trim(); }\<close>\<close>
  "stripLeading ch s =
     (if startsWith s [ch] then stripLeading ch (trim (substringFrom s 1)) else s)"
  by pat_completeness auto
termination
proof (relation "measure (\<lambda>(ch, s). length s)")
  show "wf (measure (\<lambda>(ch, s). length s))" by simp
next
  fix ch :: char and s :: string
  assume "startsWith s [ch]"
  then obtain x xs where s: "s = x # xs" by (cases s) auto
  have "length (trim xs) \<le> length xs"
    unfolding trim_def by (metis length_dropWhile_le length_rev order_trans)
  then show "((ch, trim (substringFrom s 1)), (ch, s)) \<in> measure (\<lambda>(ch, s). length s)"
    by (simp add: s substringFrom_def)
qed

declare stripLeading.simps [simp del]

definition cleanComment :: "string \<Rightarrow> string" where
  "cleanComment comment =
     (if comment = [] then []
      else trim (replaceSpaces
        (stripLeading CHR '' '' (stripLeading CHR ''*'' (stripLeading CHR ''/''
          (stripLeading CHR '' '' (trim comment)))))))"

definition downFrom :: "nat \<Rightarrow> nat \<Rightarrow> nat list" where
  \<comment> \<open>the indices of \<^verbatim>\<open>for (i = n - 1; i >= Math.max(0, n - w); i--)\<close>\<close>
  "downFrom n w = rev [n - w ..< n]"

fun xmlScan :: "string list \<Rightarrow> nat list \<Rightarrow> string list \<Rightarrow> bool \<Rightarrow> string list" where
  \<comment> \<open>the upward loop that collects the \<^verbatim>\<open>///\<close> lines; \<^verbatim>\<open>break\<close> returns what was collected\<close>
  "xmlScan lines [] xmlCommentLines foundXmlStart = xmlCommentLines"
| "xmlScan lines (i # rest) xmlCommentLines foundXmlStart =
     (case nthOpt lines i of
        None \<Rightarrow> xmlCommentLines
      | Some originalLine \<Rightarrow>
          if startsWith (trim originalLine) ''///'' then
            xmlScan lines rest
              (trim (substringFrom originalLine (indexOf originalLine ''///'' + 3)) # xmlCommentLines)
              True
          else if foundXmlStart then
            (if trim originalLine \<noteq> [] \<and> \<not> startsWith (trim originalLine) ''//''
                \<and> \<not> startsWith (trim originalLine) ''*'' \<and> \<not> startsWith (trim originalLine) ''[''
                \<and> length (trim originalLine) > 0
             then xmlCommentLines
             else xmlScan lines rest xmlCommentLines foundXmlStart)
          else
            (if trim originalLine \<noteq> [] \<and> \<not> startsWith (trim originalLine) ''//''
                \<and> \<not> startsWith (trim originalLine) ''*'' \<and> \<not> startsWith (trim originalLine) ''///''
                \<and> \<not> startsWith (trim originalLine) ''[''
             then xmlCommentLines
             else xmlScan lines rest xmlCommentLines foundXmlStart))"

definition tidy :: "string \<Rightarrow> string" where
  \<comment> \<open>\<^verbatim>\<open>t.split('\n').map(l => cleanComment(l)).filter(l => l.length > 0).join(' ')
        .replace(/\s+/g, ' ').trim()\<close>\<close>
  "tidy t = trim (replaceSpaces
     (join '' '' (filter (\<lambda>l. length l > 0) (map cleanComment (splitLines t)))))"

definition summaryRx :: rx where
  \<comment> \<open>\<^verbatim>\<open>/<summary>([\s\S]*?)<\/summary>/i\<close>\<close>
  "summaryRx = seqs [litI ''<summary>'', Grp 1 (Lazy anyChar), litI ''</summary>'']"

definition paramRx :: rx where
  \<comment> \<open>\<^verbatim>\<open>/<param\s+name=["']([^"']+)["']>([\s\S]*?)<\/param>/gi\<close>\<close>
  "paramRx = seqs [litI ''<param'', Plus ws, litI ''name='', oneOf [CHR 0x22, CHR 0x27],
     Grp 1 (Plus (noneOf [CHR 0x22, CHR 0x27])), oneOf [CHR 0x22, CHR 0x27], litI ''>'',
     Grp 2 (Lazy anyChar), litI ''</param>'']"

definition returnsRx :: rx where
  \<comment> \<open>\<^verbatim>\<open>/<returns>([\s\S]*?)<\/returns>/i\<close>\<close>
  "returnsRx = seqs [litI ''<returns>'', Grp 1 (Lazy anyChar), litI ''</returns>'']"

record XmlCommentInfo =
  summary :: "string option"
  params :: "(string \<times> string) list option"
  returns :: "string option"

definition tagText :: "rx \<Rightarrow> string \<Rightarrow> error + string option" where
  \<comment> \<open>the tidied text of a \<^verbatim>\<open>summary\<close> or \<^verbatim>\<open>returns\<close> tag, kept only when it is not empty\<close>
  "tagText r xmlComment =
     (case rxMatch r xmlComment of
        None \<Rightarrow> Inr None
      | Some c \<Rightarrow>
          (case grp c 1 of
             None \<Rightarrow> Inl TypeError
           | Some t \<Rightarrow> Inr (if tidy t \<noteq> [] then Some (tidy t) else None)))"

fun paramList :: "captures list \<Rightarrow> error + (string \<times> string) list" where
  \<comment> \<open>the loop over the \<^verbatim>\<open>param\<close> matches\<close>
  "paramList [] = Inr []"
| "paramList (c # cs) =
     (case grp c 2 of
        None \<Rightarrow> Inl TypeError
      | Some d \<Rightarrow>
          (case paramList cs of
             Inl e \<Rightarrow> Inl e
           | Inr ps \<Rightarrow>
               Inr ((case grp c 1 of
                       None \<Rightarrow> []
                     | Some paramName \<Rightarrow>
                         if paramName \<noteq> [] \<and> tidy d \<noteq> [] then [(paramName, tidy d)] else [])
                    @ ps)))"

definition extractXmlCommentInfo :: "string list \<Rightarrow> int \<Rightarrow> error + XmlCommentInfo" where
  "extractXmlCommentInfo lines lineIndex =
     (if lineIndex < 0 \<or> lineIndex \<ge> int (length lines)
      then Inr \<lparr>summary = None, params = Some [], returns = None\<rparr>
      else
        (case xmlScan lines (downFrom (nat lineIndex) 20) [] False of
           [] \<Rightarrow> Inr \<lparr>summary = None, params = None, returns = None\<rparr>
         | l # ls \<Rightarrow>
             (case tagText summaryRx (join [CHR 0x0A] (l # ls)) of
                Inl e \<Rightarrow> Inl e
              | Inr s \<Rightarrow>
                  (case paramList (rxMatchAll paramRx True (join [CHR 0x0A] (l # ls))) of
                     Inl e \<Rightarrow> Inl e
                   | Inr ps \<Rightarrow>
                       (case tagText returnsRx (join [CHR 0x0A] (l # ls)) of
                          Inl e \<Rightarrow> Inl e
                        | Inr r \<Rightarrow>
                            Inr \<lparr>summary = s,
                                 params = (if length ps > 0 then Some ps else None),
                                 returns = r\<rparr>)))))"

fun blockScan :: "string list \<Rightarrow> nat \<Rightarrow> nat list \<Rightarrow> string \<Rightarrow> string" where
  \<comment> \<open>the loop over the lines of a block comment that starts on line \<open>i\<close>\<close>
  "blockScan lines i [] comment = comment"
| "blockScan lines i (j # rest) comment =
     (case nthOpt lines j of
        None \<Rightarrow> comment
      | Some l \<Rightarrow>
          if includesStr (trim l) ''*/''
          then comment @ substring (trim l) 0 (indexOf (trim l) ''*/'')
          else if j = i
          then blockScan lines i rest (comment @ substringFrom (trim l) (indexOf (trim l) ''/*'' + 2))
          else blockScan lines i rest (comment @ '' '' @ trim l))"

definition orUndefined :: "string \<Rightarrow> string option" where
  \<comment> \<open>\<^verbatim>\<open>s || undefined\<close>\<close>
  "orUndefined s = (if s \<noteq> [] then Some s else None)"

fun plainScan :: "string list \<Rightarrow> nat \<Rightarrow> nat list \<Rightarrow> error + string option" where
  \<comment> \<open>the upward loop for an ordinary comment; \<^verbatim>\<open>lines[i].trim()\<close> is not guarded\<close>
  "plainScan lines lineIndex [] = Inr None"
| "plainScan lines lineIndex (i # rest) =
     (case nthOpt lines i of
        None \<Rightarrow> Inl TypeError
      | Some l \<Rightarrow>
          if startsWith (trim l) ''//'' \<and> \<not> startsWith (trim l) ''///''
          then Inr (orUndefined (cleanComment (substringFrom (trim l) 2)))
          else if includesStr (trim l) ''/*''
          then Inr (orUndefined (cleanComment (blockScan lines i [i ..< Suc lineIndex] [])))
          else if trim l \<noteq> [] \<and> \<not> startsWith (trim l) ''//'' \<and> \<not> startsWith (trim l) ''*''
                 \<and> \<not> startsWith (trim l) ''///''
          then Inr None
          else plainScan lines lineIndex rest)"

definition xmlSummary :: "string list \<Rightarrow> error + string option" where
  \<comment> \<open>what \<^verbatim>\<open>extractComment\<close> makes of the collected \<^verbatim>\<open>///\<close> lines: the summary tag, or
      else all of the lines\<close>
  "xmlSummary xmlCommentLines =
     (if length xmlCommentLines > 0 then
        (case tagText summaryRx (join [CHR 0x0A] xmlCommentLines) of
           Inl e \<Rightarrow> Inl e
         | Inr (Some s) \<Rightarrow> Inr (Some s)
         | Inr None \<Rightarrow>
             Inr (orUndefined
               (join '' '' (filter (\<lambda>l. length l > 0) (map cleanComment xmlCommentLines)))))
      else Inr None)"

definition extractComment :: "string list \<Rightarrow> int \<Rightarrow> error + string option" where
  "extractComment lines lineIndex =
     (if lineIndex < 0 \<or> lineIndex \<ge> int (length lines) then Inr None
      else
        (case xmlSummary (xmlScan lines (downFrom (nat lineIndex) 20) [] False) of
           Inl e \<Rightarrow> Inl e
         | Inr (Some s) \<Rightarrow> Inr (Some s)
         | Inr None \<Rightarrow> plainScan lines (nat lineIndex) (downFrom (nat lineIndex) 5)))"

definition descriptionLabel :: string where
  \<comment> \<open>the name of the description node, U+65B9 U+6CD5 U+63CF U+8FF0 and a colon, in UTF-8\<close>
  "descriptionLabel = [CHR 0xE6, CHR 0x96, CHR 0xB9, CHR 0xE6, CHR 0xB3, CHR 0x95, CHR 0xE6,
     CHR 0x8F, CHR 0x8F, CHR 0xE8, CHR 0xBF, CHR 0xB0, CHR 0x3A]"

definition parametersLabel :: string where
  \<comment> \<open>the name of the parameters node, U+65B9 U+6CD5 U+53C2 U+6570 and a colon, in UTF-8\<close>
  "parametersLabel = [CHR 0xE6, CHR 0x96, CHR 0xB9, CHR 0xE6, CHR 0xB3, CHR 0x95, CHR 0xE5,
     CHR 0x8F, CHR 0x82, CHR 0xE6, CHR 0x95, CHR 0xB0, CHR 0x3A]"

definition returnsLabel :: string where
  \<comment> \<open>the name of the returns node, U+65B9 U+6CD5 U+8FD4 U+56DE and a colon, in UTF-8\<close>
  "returnsLabel = [CHR 0xE6, CHR 0x96, CHR 0xB9, CHR 0xE6, CHR 0xB3, CHR 0x95, CHR 0xE8,
     CHR 0xBF, CHR 0x94, CHR 0xE5, CHR 0x9B, CHR 0x9E, CHR 0x3A]"

definition descriptionNodes :: "int \<Rightarrow> string option \<Rightarrow> CodeElement list" where
  \<comment> \<open>\<^verbatim>\<open>if (element.comment) { ... element.children.push({ name: ..., comment, ... }) }\<close>\<close>
  "descriptionNodes line comment =
     (case comment of
        None \<Rightarrow> []
      | Some c \<Rightarrow>
          if c \<noteq> []
          then [plainElement descriptionLabel Variable line (Some (stripLeading CHR ''/'' c)) []]
          else [])"

definition parameterNode :: "int \<Rightarrow> string \<times> string \<Rightarrow> CodeElement" where
  "parameterNode line param =
     plainElement (fst param) Variable line (Some (stripLeading CHR ''/'' (snd param))) []"

definition parametersNodes :: "int \<Rightarrow> (string \<times> string) list option \<Rightarrow> CodeElement list" where
  \<comment> \<open>\<^verbatim>\<open>if (xmlCommentInfo.params && xmlCommentInfo.params.length > 0) { ... }\<close>\<close>
  "parametersNodes line ps =
     (case ps of
        None \<Rightarrow> []
      | Some l \<Rightarrow>
          if length l > 0
          then [plainElement parametersLabel Variable line None (map (parameterNode line) l)]
          else [])"

definition returnsNodes :: "int \<Rightarrow> string option \<Rightarrow> CodeElement list" where
  \<comment> \<open>\<^verbatim>\<open>if (element.returns) { ... }\<close>\<close>
  "returnsNodes line r =
     (case r of
        None \<Rightarrow> []
      | Some t \<Rightarrow>
          if t \<noteq> []
          then [plainElement returnsLabel Variable line (Some (stripLeading CHR ''/'' t)) []]
          else [])"

definition cleaned :: "string option \<Rightarrow> string option" where
  \<comment> \<open>\<^verbatim>\<open>if (comment) { comment = this.cleanComment(comment); }\<close>\<close>
  "cleaned comment =
     (case comment of
        None \<Rightarrow> None
      | Some c \<Rightarrow> if c \<noteq> [] then Some (cleanComment c) else Some c)"

definition createElement :: "string \<Rightarrow> CodeElementType \<Rightarrow> int \<Rightarrow> string \<Rightarrow> string list
    \<Rightarrow> string option \<Rightarrow> string option \<Rightarrow> int option \<Rightarrow> error + CodeElement" where
  "createElement name ty line lineText lines returnType parameters lineIndex =
     (case extractXmlCommentInfo lines (case lineIndex of Some i \<Rightarrow> i | None \<Rightarrow> line - 1) of
        Inl e \<Rightarrow> Inl e
      | Inr xmlCommentInfo \<Rightarrow>
          (case (if truthy (summary xmlCommentInfo) then Inr (summary xmlCommentInfo)
                 else extractComment lines (case lineIndex of Some i \<Rightarrow> i | None \<Rightarrow> line - 1)) of
             Inl e \<Rightarrow> Inl e
           | Inr comment \<Rightarrow>
               Inr (CodeElement name ty (extractAccessModifier lineText) line
                 (if ty = Method \<or> ty = Constructor
                  then descriptionNodes line (cleaned comment)
                       @ parametersNodes line (params xmlCommentInfo)
                       @ returnsNodes line (returns xmlCommentInfo)
                  else [])
                 (cleaned comment) returnType parameters (returns xmlCommentInfo) None)))"



definition found :: "error + 'a \<Rightarrow> error + 'a option" where
  \<comment> \<open>a parse function returns the element it has built; \<open>Inr None\<close> is \<^verbatim>\<open>null\<close>\<close>
  "found r = (case r of Inl e \<Rightarrow> Inl e | Inr x \<Rightarrow> Inr (Some x))"

fun firstMatch :: "rx list \<Rightarrow> string \<Rightarrow> captures option" where
  \<comment> \<open>\<^verbatim>\<open>let m = line.match(r1); if (!m) { m = line.match(r2); } ...\<close>\<close>
  "firstMatch [] line = None"
| "firstMatch (r # rest) line =
     (case rxMatch r line of Some c \<Rightarrow> Some c | None \<Rightarrow> firstMatch rest line)"

definition groupText :: "captures \<Rightarrow> nat \<Rightarrow> string" where
  \<comment> \<open>\<^verbatim>\<open>match[n]\<close> where the source passes it on as an element's name. An unset group
      would make the name \<^verbatim>\<open>undefined\<close>; the groups read this way lie on the mandatory
      path of their expressions, and the model reads an unset group as the empty string.\<close>
  "groupText c n = (case grp c n of Some t \<Rightarrow> t | None \<Rightarrow> [])"

definition orEmpty :: "string option \<Rightarrow> string" where
  \<comment> \<open>\<^verbatim>\<open>v || ''\<close>\<close>
  "orEmpty v = (case v of Some t \<Rightarrow> t | None \<Rightarrow> [])"


section \<open>CSharpParser\<close>

definition accessRx :: rx where
  \<comment> \<open>\<^verbatim>\<open>(?:public|private|protected|internal)\<close>\<close>
  "accessRx = alts [lit ''public'', lit ''private'', lit ''protected'', lit ''internal'']"

definition argsRx :: "nat \<Rightarrow> rx" where
  \<comment> \<open>\<^verbatim>\<open>\(([^)]*)\)\<close>, the group having number \<open>n\<close>\<close>
  "argsRx n = seqs [Chr CHR ''('', Grp n (Star (noneOf '')'')), Chr CHR '')'']"

definition typeRx :: rx where
  \<comment> \<open>\<^verbatim>\<open>\w+(?:<[^>]+>)?\<close>\<close>
  "typeRx = Seq (Plus wd) (Opt (seqs [Chr CHR ''<'', Plus (noneOf ''>''), Chr CHR ''>'']))"

definition returnTypeRx :: rx where
  \<comment> \<open>\<^verbatim>\<open>[\w<>,\s.]+?\<close>\<close>
  "returnTypeRx = LazyPlus (Cls (\<lambda>c. isWord c \<or> c \<in> set ''<>,.'' \<or> isSpace c))"

definition namespaceRx :: rx where
  \<comment> \<open>\<^verbatim>\<open>/namespace\s+([\w.]+)/\<close>\<close>
  "namespaceRx = seqs [lit ''namespace'', Plus ws, Grp 1 (Plus (Cls (\<lambda>c. isWord c \<or> c = CHR ''.'')))]"

definition classRx :: rx where
  \<comment> \<open>\<^verbatim>\<open>/(?:public|private|protected|internal)?\s*(?:abstract|sealed|static)?\s*class\s+(\w+)/\<close>\<close>
  "classRx = seqs [Opt accessRx, Star ws, Opt (alts [lit ''abstract'', lit ''sealed'', lit ''static'']),
     Star ws, lit ''class'', Plus ws, Grp 1 (Plus wd)]"

definition interfaceRx :: rx where
  \<comment> \<open>\<^verbatim>\<open>/(?:public|private|protected|internal)?\s*interface\s+(\w+)/\<close>\<close>
  "interfaceRx = seqs [Opt accessRx, Star ws, lit ''interface'', Plus ws, Grp 1 (Plus wd)]"

definition enumRx :: rx where
  \<comment> \<open>\<^verbatim>\<open>/(?:public|private|protected|internal)?\s*enum\s+(\w+)/\<close>\<close>
  "enumRx = seqs [Opt accessRx, Star ws, lit ''enum'', Plus ws, Grp 1 (Plus wd)]"

definition constructorRx1 :: rx where
  \<comment> \<open>\<^verbatim>\<open>/static\s+(?:public|private|protected|internal)?\s*(\w+)\s*\(([^)]*)\)/\<close>\<close>
  "constructorRx1 = seqs [lit ''static'', Plus ws, Opt accessRx, Star ws, Grp 1 (Plus wd), Star ws,
     argsRx 2]"

definition constructorRx2 :: rx where
  \<comment> \<open>\<^verbatim>\<open>/(?:public|private|protected|internal)\s*(\w+)\s*\(([^)]*)\)/\<close>\<close>
  "constructorRx2 = seqs [accessRx, Star ws, Grp 1 (Plus wd), Star ws, argsRx 2]"

definition constructorRx3 :: rx where
  \<comment> \<open>\<^verbatim>\<open>/^\s*(\w+)\s*\(([^)]*)\)/\<close>\<close>
  "constructorRx3 = seqs [Bol, Star ws, Grp 1 (Plus wd), Star ws, argsRx 2]"

definition methodRx1 :: rx where
  \<comment> \<open>\<^verbatim>\<open>/static\s+(?:public|private|protected|internal)?\s*(?:async|virtual|override|abstract)?\s*([\w<>,\s.]+?)\s+(\w+)\s*\(([^)]*)\)/\<close>\<close>
  "methodRx1 = seqs [lit ''static'', Plus ws, Opt accessRx, Star ws,
     Opt (alts [lit ''async'', lit ''virtual'', lit ''override'', lit ''abstract'']), Star ws,
     Grp 1 returnTypeRx, Plus ws, Grp 2 (Plus wd), Star ws, argsRx 3]"

definition methodRx2 :: rx where
  \<comment> \<open>\<^verbatim>\<open>/(?:public|private|protected|internal)\s*(?:static|async|virtual|override|abstract)?\s*([\w<>,\s.]+?)\s+(\w+)\s*\(([^)]*)\)/\<close>\<close>
  "methodRx2 = seqs [accessRx, Star ws,
     Opt (alts [lit ''static'', lit ''async'', lit ''virtual'', lit ''override'', lit ''abstract'']),
     Star ws, Grp 1 returnTypeRx, Plus ws, Grp 2 (Plus wd), Star ws, argsRx 3]"

definition methodRx3 :: rx where
  \<comment> \<open>\<^verbatim>\<open>/static\s+([\w<>,\s.]+?)\s+(\w+)\s*\(([^)]*)\)/\<close>\<close>
  "methodRx3 = seqs [lit ''static'', Plus ws, Grp 1 returnTypeRx, Plus ws, Grp 2 (Plus wd), Star ws,
     argsRx 3]"

definition propertyRx1 :: rx where
  \<comment> \<open>\<^verbatim>\<open>/static\s+(?:public|private|protected|internal)?\s*(?:virtual|override)?\s*(\w+(?:<[^>]+>)?)\s+(\w+)\s*\{/\<close>\<close>
  "propertyRx1 = seqs [lit ''static'', Plus ws, Opt accessRx, Star ws,
     Opt (alts [lit ''virtual'', lit ''override'']), Star ws,
     Grp 1 typeRx, Plus ws, Grp 2 (Plus wd), Star ws, Chr CHR ''{'']"

definition propertyRx2 :: rx where
  \<comment> \<open>\<^verbatim>\<open>/(?:public|private|protected|internal)\s*(?:static|virtual|override)?\s*(\w+(?:<[^>]+>)?)\s+(\w+)\s*\{/\<close>\<close>
  "propertyRx2 = seqs [accessRx, Star ws,
     Opt (alts [lit ''static'', lit ''virtual'', lit ''override'']), Star ws,
     Grp 1 typeRx, Plus ws, Grp 2 (Plus wd), Star ws, Chr CHR ''{'']"

definition propertyRx3 :: rx where
  \<comment> \<open>\<^verbatim>\<open>/static\s+(\w+(?:<[^>]+>)?)\s+(\w+)\s*\{/\<close>\<close>
  "propertyRx3 = seqs [lit ''static'', Plus ws, Grp 1 typeRx, Plus ws, Grp 2 (Plus wd), Star ws,
     Chr CHR ''{'']"

definition storageRx :: rx where
  \<comment> \<open>\<^verbatim>\<open>(?:static|readonly|const)\<close>\<close>
  "storageRx = alts [lit ''static'', lit ''readonly'', lit ''const'']"

definition fieldGuardRx :: rx where
  \<comment> \<open>\<^verbatim>\<open>/^\s*(?:public|private|protected|internal|static|readonly|const)/\<close>\<close>
  "fieldGuardRx = seqs [Bol, Star ws,
     alts [lit ''public'', lit ''private'', lit ''protected'', lit ''internal'', lit ''static'',
           lit ''readonly'', lit ''const'']]"

definition fieldRx1 :: rx where
  \<comment> \<open>\<^verbatim>\<open>/(?:static|readonly|const)\s+(?:public|private|protected|internal)?\s*(\w+(?:<[^>]+>)?)\s+(\w+)(?:\s*[=;])/\<close>\<close>
  "fieldRx1 = seqs [storageRx, Plus ws, Opt accessRx, Star ws, Grp 1 typeRx, Plus ws,
     Grp 2 (Plus wd), Star ws, oneOf ''=;'']"

definition fieldRx2 :: rx where
  \<comment> \<open>\<^verbatim>\<open>/(?:public|private|protected|internal)\s*(?:static|readonly|const)?\s*(\w+(?:<[^>]+>)?)\s+(\w+)(?:\s*[=;])/\<close>\<close>
  "fieldRx2 = seqs [accessRx, Star ws, Opt storageRx, Star ws, Grp 1 typeRx, Plus ws,
     Grp 2 (Plus wd), Star ws, oneOf ''=;'']"

definition fieldRx3 :: rx where
  \<comment> \<open>\<^verbatim>\<open>/(?:static|readonly|const)\s+(\w+(?:<[^>]+>)?)\s+(\w+)(?:\s*[=;])/\<close>\<close>
  "fieldRx3 = seqs [storageRx, Plus ws, Grp 1 typeRx, Plus ws, Grp 2 (Plus wd), Star ws,
     oneOf ''=;'']"

definition cs_parseClass :: "string \<Rightarrow> int \<Rightarrow> string list \<Rightarrow> error + CodeElement option" where
  "cs_parseClass line lineNum lines =
     (case rxMatch classRx line of
        Some classMatch \<Rightarrow>
          found (createElement (groupText classMatch 1) Class lineNum line lines None None None)
      | None \<Rightarrow> Inr None)"

definition cs_parseInterface :: "string \<Rightarrow> int \<Rightarrow> string list \<Rightarrow> error + CodeElement option" where
  "cs_parseInterface line lineNum lines =
     (case rxMatch interfaceRx line of
        Some interfaceMatch \<Rightarrow>
          found (createElement (groupText interfaceMatch 1) Interface lineNum line lines None None None)
      | None \<Rightarrow> Inr None)"

definition parseNamespace :: "string \<Rightarrow> int \<Rightarrow> string list \<Rightarrow> error + CodeElement option" where
  "parseNamespace line lineNum lines =
     (case rxMatch namespaceRx line of
        Some namespaceMatch \<Rightarrow>
          found (createElement (groupText namespaceMatch 1) Namespace lineNum line lines None None None)
      | None \<Rightarrow> Inr None)"

definition parseEnum :: "string \<Rightarrow> int \<Rightarrow> string list \<Rightarrow> error + CodeElement option" where
  "parseEnum line lineNum lines =
     (case rxMatch enumRx line of
        Some enumMatch \<Rightarrow>
          found (createElement (groupText enumMatch 1) Enum lineNum line lines None None None)
      | None \<Rightarrow> Inr None)"

definition parseConstructor :: "string \<Rightarrow> int \<Rightarrow> string list \<Rightarrow> string
    \<Rightarrow> error + CodeElement option" where
  "parseConstructor line lineNum lines className =
     (if includesStr line ''{'' \<and> (includesStr line ''get'' \<or> includesStr line ''set'')
      then Inr None
      else
        (case firstMatch [constructorRx1, constructorRx2, constructorRx3] line of
           Some constructorMatch \<Rightarrow>
             if grp constructorMatch 1 = Some className
             then found (createElement (groupText constructorMatch 1) Constructor lineNum line lines
                    None (Some (orEmpty (grp constructorMatch 2))) None)
             else Inr None
         | None \<Rightarrow> Inr None))"

definition parseMethod :: "string \<Rightarrow> int \<Rightarrow> string list \<Rightarrow> string
    \<Rightarrow> error + CodeElement option" where
  "parseMethod line lineNum lines className =
     (if includesStr line ''{'' \<and> (includesStr line ''get'' \<or> includesStr line ''set'')
      then Inr None
      else
        (case firstMatch [methodRx1, methodRx2, methodRx3] line of
           Some methodMatch \<Rightarrow>
             (case grp methodMatch 1 of
                None \<Rightarrow> Inl TypeError
              | Some t \<Rightarrow>
                  if Some (trim t) = grp methodMatch 2 \<and> grp methodMatch 2 = Some className
                  then found (createElement (groupText methodMatch 2) Constructor lineNum line lines
                         None (Some (orEmpty (grp methodMatch 3))) None)
                  else found (createElement (groupText methodMatch 2) Method lineNum line lines
                         (Some (trim t)) (Some (orEmpty (grp methodMatch 3))) None))
         | None \<Rightarrow> Inr None))"

definition parseProperty :: "string \<Rightarrow> int \<Rightarrow> string list \<Rightarrow> error + CodeElement option" where
  "parseProperty line lineNum lines =
     (case firstMatch [propertyRx1, propertyRx2, propertyRx3] line of
        Some propertyMatch \<Rightarrow>
          found (createElement (groupText propertyMatch 2) Property lineNum line lines
            (grp propertyMatch 1) None None)
      | None \<Rightarrow> Inr None)"

definition parseField :: "string \<Rightarrow> int \<Rightarrow> string list \<Rightarrow> error + CodeElement option" where
  "parseField line lineNum lines =
     (if includesStr line ''('' \<or> (includesStr line ''{'' \<and> \<not> includesStr line ''get''
           \<and> \<not> includesStr line ''set'')
      then Inr None
      else if \<not> rxTest fieldGuardRx line then Inr None
      else
        (case firstMatch [fieldRx1, fieldRx2, fieldRx3] line of
           Some fieldMatch \<Rightarrow>
             found (createElement (groupText fieldMatch 2) Field lineNum line lines
               (grp fieldMatch 1) None None)
         | None \<Rightarrow> Inr None))"

text \<open>
  The variables of \<^verbatim>\<open>CSharpParser.parse\<close>. \<open>currentNamespace\<close> and \<open>currentClass\<close>
  are references to elements that are already in the tree; here they are paths into
  \<open>cs_elements\<close>.
\<close>

record cs_state =
  cs_elements :: "CodeElement list"
  cs_braceCount :: int
  cs_currentNamespace :: "nat list option"
  cs_namespaceStartBrace :: int
  cs_currentClass :: "nat list option"
  cs_classStartBrace :: int
  cs_inMethod :: bool
  cs_methodBraceLevel :: int

definition cs_init :: cs_state where
  "cs_init = \<lparr>cs_elements = [], cs_braceCount = 0, cs_currentNamespace = None,
     cs_namespaceStartBrace = - 1, cs_currentClass = None, cs_classStartBrace = - 1,
     cs_inMethod = False, cs_methodBraceLevel = - 1\<rparr>"

definition closeNamespace :: "cs_state \<Rightarrow> cs_state" where
  "closeNamespace st =
     (if cs_currentNamespace st \<noteq> None \<and> cs_namespaceStartBrace st \<ge> 0
         \<and> cs_braceCount st \<le> cs_namespaceStartBrace st
      then st\<lparr>cs_currentNamespace := None, cs_namespaceStartBrace := - 1,
              cs_currentClass := None, cs_classStartBrace := - 1,
              cs_inMethod := False, cs_methodBraceLevel := - 1\<rparr>
      else st)"

definition closeClass :: "cs_state \<Rightarrow> cs_state" where
  "closeClass st =
     (if cs_currentClass st \<noteq> None \<and> cs_classStartBrace st \<ge> 0
         \<and> cs_braceCount st \<le> cs_classStartBrace st
      then st\<lparr>cs_currentClass := None, cs_classStartBrace := - 1,
              cs_inMethod := False, cs_methodBraceLevel := - 1\<rparr>
      else st)"

definition closeMethod :: "cs_state \<Rightarrow> cs_state" where
  "closeMethod st =
     (if cs_inMethod st \<and> cs_methodBraceLevel st \<ge> 0
         \<and> cs_braceCount st \<le> cs_methodBraceLevel st
      then st\<lparr>cs_inMethod := False, cs_methodBraceLevel := - 1\<rparr>
      else st)"

definition attach :: "CodeElement \<Rightarrow> cs_state \<Rightarrow> cs_state" where
  \<comment> \<open>an interface, an enum or a class goes to the children of the current namespace,
      or to the root list when there is none\<close>
  "attach e st =
     (case cs_currentNamespace st of
        Some ns \<Rightarrow> st\<lparr>cs_elements := pushAt ns e (cs_elements st)\<rparr>
      | None \<Rightarrow> st\<lparr>cs_elements := cs_elements st @ [e]\<rparr>)"

definition addMember :: "nat list \<Rightarrow> CodeElement \<Rightarrow> cs_state \<Rightarrow> cs_state" where
  \<comment> \<open>\<^verbatim>\<open>currentClass.children.push(e)\<close>\<close>
  "addMember cls e st = st\<lparr>cs_elements := pushAt cls e (cs_elements st)\<rparr>"

definition openMethod :: "cs_state \<Rightarrow> cs_state" where
  \<comment> \<open>\<^verbatim>\<open>inMethod = true; methodBraceLevel = braceCount;\<close>\<close>
  "openMethod st = st\<lparr>cs_inMethod := True, cs_methodBraceLevel := cs_braceCount st\<rparr>"

definition topLevel :: "string list \<Rightarrow> int \<Rightarrow> string \<Rightarrow> cs_state \<Rightarrow> error + cs_state" where
  \<comment> \<open>the block \<^verbatim>\<open>if (!currentClass) { interface, enum }\<close> at the end of the loop body\<close>
  "topLevel lines lineNum trimmedLine st =
     (case cs_parseInterface trimmedLine lineNum lines of
        Inl e \<Rightarrow> Inl e
      | Inr (Some interfaceElement) \<Rightarrow> Inr (attach interfaceElement st)
      | Inr None \<Rightarrow>
          (case parseEnum trimmedLine lineNum lines of
             Inl e \<Rightarrow> Inl e
           | Inr (Some enumElement) \<Rightarrow> Inr (attach enumElement st)
           | Inr None \<Rightarrow> Inr st))"

definition members :: "string list \<Rightarrow> int \<Rightarrow> string \<Rightarrow> nat list \<Rightarrow> string \<Rightarrow> cs_state
    \<Rightarrow> error + cs_state" where
  \<comment> \<open>the block \<^verbatim>\<open>if (currentClass) { ... }\<close>; \<open>cls\<close> is the current class and
      \<open>className\<close> its name. A line that is no member falls through to the last block,
      which does nothing inside a class.\<close>
  "members lines lineNum trimmedLine cls className st =
     (if cs_inMethod st then
        (case parseMethod trimmedLine lineNum lines className of
           Inl e \<Rightarrow> Inl e
         | Inr (Some methodElement) \<Rightarrow>
             Inr (addMember cls methodElement (st\<lparr>cs_methodBraceLevel := cs_braceCount st\<rparr>))
         | Inr None \<Rightarrow> Inr st)
      else
        (case parseConstructor trimmedLine lineNum lines className of
           Inl e \<Rightarrow> Inl e
         | Inr (Some constructorElement) \<Rightarrow> Inr (addMember cls constructorElement (openMethod st))
         | Inr None \<Rightarrow>
             (case parseMethod trimmedLine lineNum lines className of
                Inl e \<Rightarrow> Inl e
              | Inr (Some methodElement) \<Rightarrow> Inr (addMember cls methodElement (openMethod st))
              | Inr None \<Rightarrow>
                  (case parseProperty trimmedLine lineNum lines of
                     Inl e \<Rightarrow> Inl e
                   | Inr (Some propertyElement) \<Rightarrow> Inr (addMember cls propertyElement st)
                   | Inr None \<Rightarrow>
                       (case parseField trimmedLine lineNum lines of
                          Inl e \<Rightarrow> Inl e
                        | Inr (Some fieldElement) \<Rightarrow> Inr (addMember cls fieldElement st)
                        | Inr None \<Rightarrow> Inr st)))))"

definition inClass :: "string list \<Rightarrow> int \<Rightarrow> string \<Rightarrow> cs_state \<Rightarrow> error + cs_state" where
  \<comment> \<open>what follows the attempts at a namespace and a class\<close>
  "inClass lines lineNum trimmedLine st =
     (case cs_currentClass st of
        Some cls \<Rightarrow>
          (case getAt cls (cs_elements st) of
             None \<Rightarrow> Inl DanglingReference
           | Some c \<Rightarrow> members lines lineNum trimmedLine cls (el_name c) st)
      | None \<Rightarrow> topLevel lines lineNum trimmedLine st)"

definition openClass :: "CodeElement \<Rightarrow> int \<Rightarrow> cs_state \<Rightarrow> error + cs_state" where
  \<comment> \<open>\<^verbatim>\<open>currentClass = classElement; classStartBrace = beforeBraceCount;\<close> and the
      class goes into the tree\<close>
  "openClass classElement beforeBraceCount st =
     (case cs_currentNamespace st of
        Some ns \<Rightarrow>
          (case getAt ns (cs_elements st) of
             None \<Rightarrow> Inl DanglingReference
           | Some n \<Rightarrow>
               Inr (st\<lparr>cs_elements := pushAt ns classElement (cs_elements st),
                       cs_currentClass := Some (ns @ [length (el_children n)]),
                       cs_classStartBrace := beforeBraceCount\<rparr>))
      | None \<Rightarrow>
          Inr (st\<lparr>cs_elements := cs_elements st @ [classElement],
                  cs_currentClass := Some [length (cs_elements st)],
                  cs_classStartBrace := beforeBraceCount\<rparr>))"

definition classOrMember :: "string list \<Rightarrow> int \<Rightarrow> string \<Rightarrow> int \<Rightarrow> cs_state
    \<Rightarrow> error + cs_state" where
  "classOrMember lines lineNum trimmedLine beforeBraceCount st =
     (if cs_currentClass st = None then
        (case cs_parseClass trimmedLine lineNum lines of
           Inl e \<Rightarrow> Inl e
         | Inr (Some classElement) \<Rightarrow> openClass classElement beforeBraceCount st
         | Inr None \<Rightarrow> inClass lines lineNum trimmedLine st)
      else inClass lines lineNum trimmedLine st)"

definition scopes :: "string list \<Rightarrow> int \<Rightarrow> string \<Rightarrow> int \<Rightarrow> cs_state \<Rightarrow> error + cs_state" where
  "scopes lines lineNum trimmedLine beforeBraceCount st =
     (if cs_currentNamespace st = None \<and> cs_currentClass st = None then
        (case parseNamespace trimmedLine lineNum lines of
           Inl e \<Rightarrow> Inl e
         | Inr (Some namespaceElement) \<Rightarrow>
             Inr (st\<lparr>cs_elements := cs_elements st @ [namespaceElement],
                     cs_currentNamespace := Some [length (cs_elements st)],
                     cs_namespaceStartBrace := beforeBraceCount\<rparr>)
         | Inr None \<Rightarrow> classOrMember lines lineNum trimmedLine beforeBraceCount st)
      else classOrMember lines lineNum trimmedLine beforeBraceCount st)"

definition skipped :: "string \<Rightarrow> bool" where
  \<comment> \<open>an empty line or a comment line\<close>
  "skipped trimmedLine =
     (trimmedLine = [] \<or> startsWith trimmedLine ''//'' \<or> startsWith trimmedLine ''*''
      \<or> startsWith trimmedLine ''///'' \<or> startsWith trimmedLine ''/*''
      \<or> startsWith trimmedLine ''/**'')"

definition cs_step :: "string list \<Rightarrow> int \<Rightarrow> string \<Rightarrow> cs_state \<Rightarrow> error + cs_state" where
  \<comment> \<open>the body of the loop over the lines; \<open>lineNum\<close> is already incremented\<close>
  "cs_step lines lineNum line st =
     (if skipped (trim line) then Inr st
      else scopes lines lineNum (trim line) (cs_braceCount st)
             (closeMethod (closeClass (closeNamespace
                (st\<lparr>cs_braceCount := cs_braceCount st + braceDelta line\<rparr>)))))"

fun cs_loop :: "string list \<Rightarrow> int \<Rightarrow> string list \<Rightarrow> cs_state \<Rightarrow> error + cs_state" where
  \<comment> \<open>\<^verbatim>\<open>for (const line of lines) { lineNum++; ... }\<close> over the lines still to come\<close>
  "cs_loop lines lineNum [] st = Inr st"
| "cs_loop lines lineNum (line # rest) st =
     (case cs_step lines (lineNum + 1) line st of
        Inl e \<Rightarrow> Inl e
      | Inr st' \<Rightarrow> cs_loop lines (lineNum + 1) rest st')"

definition cs_parse :: "string list \<Rightarrow> error + CodeElement list" where
  \<comment> \<open>\<^verbatim>\<open>CSharpParser.parse\<close>\<close>
  "cs_parse lines =
     (case cs_loop lines 0 lines cs_init of
        Inl e \<Rightarrow> Inl e
      | Inr st \<Rightarrow> Inr (cs_elements st))"



section \<open>JavaScriptParser\<close>

definition lineAt :: "string list \<Rightarrow> int \<Rightarrow> string option" where
  \<comment> \<open>\<^verbatim>\<open>lines[i]\<close> for a number \<open>i\<close>; \<open>None\<close> is \<^verbatim>\<open>undefined\<close>\<close>
  "lineAt lines i = (if 0 \<le> i \<and> i < int (length lines) then Some (lines ! nat i) else None)"

definition exportRx :: rx where
  \<comment> \<open>\<^verbatim>\<open>(?:export\s+)?\<close>\<close>
  "exportRx = Opt (Seq (lit ''export'') (Plus ws))"

definition asyncRx :: rx where
  \<comment> \<open>\<^verbatim>\<open>(?:async\s*)?\<close>\<close>
  "asyncRx = Opt (Seq (lit ''async'') (Star ws))"

definition js_classRx :: rx where
  \<comment> \<open>\<^verbatim>\<open>/(?:export\s+)?(?:default\s+)?(?:abstract\s+)?class\s+(\w+)/\<close>\<close>
  "js_classRx = seqs [exportRx, Opt (Seq (lit ''default'') (Plus ws)),
     Opt (Seq (lit ''abstract'') (Plus ws)), lit ''class'', Plus ws, Grp 1 (Plus wd)]"

definition functionRx1 :: rx where
  \<comment> \<open>\<^verbatim>\<open>/(?:export\s+)?(?:async\s+)?function\s+(\w+)\s*\(/\<close>\<close>
  "functionRx1 = seqs [exportRx, Opt (Seq (lit ''async'') (Plus ws)), lit ''function'', Plus ws,
     Grp 1 (Plus wd), Star ws, Chr CHR ''('']"

definition functionRx2 :: rx where
  \<comment> \<open>\<^verbatim>\<open>/(?:export\s+)?(?:const|let|var)\s+(\w+)\s*[=:]\s*(?:async\s*)?\(/\<close>\<close>
  "functionRx2 = seqs [exportRx, alts [lit ''const'', lit ''let'', lit ''var''], Plus ws,
     Grp 1 (Plus wd), Star ws, oneOf ''=:'', Star ws, asyncRx, Chr CHR ''('']"

definition functionRx3 :: rx where
  \<comment> \<open>\<^verbatim>\<open>/(?:export\s+)?(\w+)\s*[:=]\s*(?:async\s*)?\(/\<close>\<close>
  "functionRx3 = seqs [exportRx, Grp 1 (Plus wd), Star ws, oneOf '':='', Star ws, asyncRx,
     Chr CHR ''('']"

definition js_interfaceRx :: rx where
  \<comment> \<open>\<^verbatim>\<open>/(?:export\s+)?interface\s+(\w+)/\<close>\<close>
  "js_interfaceRx = seqs [exportRx, lit ''interface'', Plus ws, Grp 1 (Plus wd)]"

definition js_parseClass :: "string \<Rightarrow> int \<Rightarrow> string list \<Rightarrow> error + CodeElement option" where
  "js_parseClass line lineNum lines =
     (case rxMatch js_classRx line of
        Some classMatch \<Rightarrow>
          found (createElement (groupText classMatch 1) Class lineNum line lines None None None)
      | None \<Rightarrow> Inr None)"

definition parseFunction :: "string \<Rightarrow> int \<Rightarrow> string list \<Rightarrow> error + CodeElement option" where
  "parseFunction line lineNum lines =
     (case firstMatch [functionRx1, functionRx2, functionRx3] line of
        Some functionMatch \<Rightarrow>
          found (createElement (groupText functionMatch 1) Function lineNum line lines None None None)
      | None \<Rightarrow> Inr None)"

definition js_parseInterface :: "string \<Rightarrow> int \<Rightarrow> string list \<Rightarrow> error + CodeElement option" where
  "js_parseInterface line lineNum lines =
     (case rxMatch js_interfaceRx line of
        Some interfaceMatch \<Rightarrow>
          found (createElement (groupText interfaceMatch 1) Interface lineNum line lines None None None)
      | None \<Rightarrow> Inr None)"

definition js_skipped :: "string \<Rightarrow> bool" where
  \<comment> \<open>the lines the scans of an options object pass over\<close>
  "js_skipped trimmedLine =
     (trimmedLine = [] \<or> startsWith trimmedLine ''//'' \<or> startsWith trimmedLine ''*'')"

definition quoteRx :: rx where
  \<comment> \<open>\<^verbatim>\<open>(?:['"]?)\<close>\<close>
  "quoteRx = Opt (oneOf [CHR 0x27, CHR 0x22])"

definition callStartRx :: rx where
  \<comment> \<open>\<^verbatim>\<open>(?:function\s*\(|\(|async\s*\(|async\s*function\s*\()\<close>\<close>
  "callStartRx = alts [seqs [lit ''function'', Star ws, Chr CHR ''(''], Chr CHR ''('',
     seqs [lit ''async'', Star ws, Chr CHR ''(''],
     seqs [lit ''async'', Star ws, lit ''function'', Star ws, Chr CHR ''('']]"

definition methodRxA :: rx where
  \<comment> \<open>\<^verbatim>\<open>/^\s*(\w+)\s*[:=]\s*(?:function\s*\(|\(|async\s*\(|async\s*function\s*\()/\<close>\<close>
  "methodRxA = seqs [Bol, Star ws, Grp 1 (Plus wd), Star ws, oneOf '':='', Star ws, callStartRx]"

definition methodRxB :: rx where
  \<comment> \<open>\<^verbatim>\<open>/^\s*(\w+)\s*\(/\<close>\<close>
  "methodRxB = seqs [Bol, Star ws, Grp 1 (Plus wd), Star ws, Chr CHR ''('']"

definition computedRx :: rx where
  \<comment> \<open>\<^verbatim>\<open>/^\s*(\w+)\s*[:=]\s*(?:function\s*\(|\(|{)/\<close>\<close>
  "computedRx = seqs [Bol, Star ws, Grp 1 (Plus wd), Star ws, oneOf '':='', Star ws,
     alts [seqs [lit ''function'', Star ws, Chr CHR ''(''], Chr CHR ''('', Chr CHR ''{'']]"

definition keyRx :: rx where
  \<comment> \<open>\<^verbatim>\<open>/^\s*(?:['"]?)(\w+)(?:['"]?)\s*[:=]/\<close>\<close>
  "keyRx = seqs [Bol, Star ws, quoteRx, Grp 1 (Plus wd), quoteRx, Star ws, oneOf '':='']"

definition watchRxA :: rx where
  \<comment> \<open>\<^verbatim>\<open>/^\s*(?:['"]?)(\w+)(?:['"]?)\s*[:=]\s*(?:function\s*\(|\(|async\s*\(|async\s*function\s*\()/\<close>\<close>
  "watchRxA = seqs [Bol, Star ws, quoteRx, Grp 1 (Plus wd), quoteRx, Star ws, oneOf '':='', Star ws,
     callStartRx]"

definition watchRxB :: rx where
  \<comment> \<open>\<^verbatim>\<open>/^\s*(?:['"]?)(\w+)(?:['"]?)\s*\(/\<close>\<close>
  "watchRxB = seqs [Bol, Star ws, quoteRx, Grp 1 (Plus wd), quoteRx, Star ws, Chr CHR ''('']"

fun methodsLoop :: "string list \<Rightarrow> int \<Rightarrow> int list \<Rightarrow> CodeElement list \<Rightarrow> int \<Rightarrow> bool \<Rightarrow> bool
    \<Rightarrow> int \<Rightarrow> error + CodeElement list" where
  \<comment> \<open>the loop of \<^verbatim>\<open>parseMethodsContent\<close> over the indices still to come\<close>
  "methodsLoop lines startLineOffset [] methods braceCount inMethods inMethodBody
       methodBodyBraceCount = Inr methods"
| "methodsLoop lines startLineOffset (i # rest) methods braceCount inMethods inMethodBody
       methodBodyBraceCount =
     (case lineAt lines i of
        None \<Rightarrow> Inl TypeError
      | Some line \<Rightarrow>
          let trimmedLine = trim line; lineBraceCount = braceDelta (trim line) in
          if js_skipped trimmedLine then
            methodsLoop lines startLineOffset rest methods braceCount inMethods inMethodBody
              methodBodyBraceCount
          else if includesStr trimmedLine ''methods'' \<and> includesStr trimmedLine ''{'' then
            methodsLoop lines startLineOffset rest methods lineBraceCount True inMethodBody
              methodBodyBraceCount
          else if \<not> inMethods then
            methodsLoop lines startLineOffset rest methods braceCount inMethods inMethodBody
              methodBodyBraceCount
          else if inMethodBody then
            (if braceCount + lineBraceCount \<le> 0 then Inr methods
             else if methodBodyBraceCount + lineBraceCount \<le> 0 then
               methodsLoop lines startLineOffset rest methods (braceCount + lineBraceCount)
                 inMethods False 0
             else
               methodsLoop lines startLineOffset rest methods (braceCount + lineBraceCount)
                 inMethods True (methodBodyBraceCount + lineBraceCount))
          else
            (case firstMatch [methodRxA, methodRxB] trimmedLine of
               Some methodMatch \<Rightarrow>
                 (case createElement (groupText methodMatch 1) Method (i + 1 + startLineOffset)
                         line lines None
                         (case rxMatch (argsRx 1) trimmedLine of
                            Some paramMatch \<Rightarrow> grp paramMatch 1
                          | None \<Rightarrow> Some [])
                         (Some i) of
                    Inl e \<Rightarrow> Inl e
                  | Inr methodElement \<Rightarrow>
                      if braceCount + lineBraceCount \<le> 0 then Inr (methods @ [methodElement])
                      else
                        methodsLoop lines startLineOffset rest (methods @ [methodElement])
                          (braceCount + lineBraceCount) inMethods
                          (includesStr trimmedLine ''{'' \<and> lineBraceCount > 0)
                          (if includesStr trimmedLine ''{'' then lineBraceCount
                           else methodBodyBraceCount))
             | None \<Rightarrow>
                 if trimmedLine = ''{'' then
                   methodsLoop lines startLineOffset rest methods (braceCount + lineBraceCount)
                     inMethods True 1
                 else if braceCount + lineBraceCount \<le> 0 then Inr methods
                 else
                   methodsLoop lines startLineOffset rest methods (braceCount + lineBraceCount)
                     inMethods inMethodBody methodBodyBraceCount))"

definition parseMethodsContent :: "string list \<Rightarrow> int \<Rightarrow> int \<Rightarrow> int \<Rightarrow> error + CodeElement list" where
  \<comment> \<open>\<^verbatim>\<open>for (let i = startLine - 1; i < endLine && i < lines.length; i++)\<close>\<close>
  "parseMethodsContent lines startLine endLine startLineOffset =
     methodsLoop lines startLineOffset [startLine - 1 .. min endLine (int (length lines)) - 1]
       [] 0 False False 0"

fun bagLoop :: "string \<Rightarrow> rx list \<Rightarrow> CodeElementType \<Rightarrow> string list \<Rightarrow> int \<Rightarrow> int list
    \<Rightarrow> CodeElement list \<Rightarrow> int \<Rightarrow> bool \<Rightarrow> error + CodeElement list" where
  \<comment> \<open>the loops of \<^verbatim>\<open>parseComputedContent\<close>, \<^verbatim>\<open>parseWatchContent\<close> and
      \<^verbatim>\<open>parsePropsContent\<close>, which differ in the key that opens the block, the
      expressions of an entry and the type of the elements\<close>
  "bagLoop key rs ty lines startLineOffset [] acc braceCount inBag = Inr acc"
| "bagLoop key rs ty lines startLineOffset (i # rest) acc braceCount inBag =
     (case lineAt lines i of
        None \<Rightarrow> Inl TypeError
      | Some line \<Rightarrow>
          let trimmedLine = trim line in
          if js_skipped trimmedLine then
            bagLoop key rs ty lines startLineOffset rest acc braceCount inBag
          else if includesStr trimmedLine key \<and> includesStr trimmedLine ''{'' then
            bagLoop key rs ty lines startLineOffset rest acc (braceDelta trimmedLine) True
          else if \<not> inBag then
            bagLoop key rs ty lines startLineOffset rest acc braceCount inBag
          else
            (case firstMatch rs trimmedLine of
               Some entryMatch \<Rightarrow>
                 (case createElement (groupText entryMatch 1) ty (i + 1 + startLineOffset) line
                         lines None None (Some i) of
                    Inl e \<Rightarrow> Inl e
                  | Inr entryElement \<Rightarrow>
                      if braceCount + braceDelta trimmedLine \<le> 0 then Inr (acc @ [entryElement])
                      else bagLoop key rs ty lines startLineOffset rest (acc @ [entryElement])
                             (braceCount + braceDelta trimmedLine) inBag)
             | None \<Rightarrow>
                 if braceCount + braceDelta trimmedLine \<le> 0 then Inr acc
                 else bagLoop key rs ty lines startLineOffset rest acc
                        (braceCount + braceDelta trimmedLine) inBag))"

definition parseComputedContent :: "string list \<Rightarrow> int \<Rightarrow> int \<Rightarrow> int \<Rightarrow> error + CodeElement list" where
  "parseComputedContent lines startLine endLine startLineOffset =
     bagLoop ''computed'' [computedRx] Property lines startLineOffset
       [startLine - 1 .. min endLine (int (length lines)) - 1] [] 0 False"

definition parseWatchContent :: "string list \<Rightarrow> int \<Rightarrow> int \<Rightarrow> int \<Rightarrow> error + CodeElement list" where
  "parseWatchContent lines startLine endLine startLineOffset =
     bagLoop ''watch'' [watchRxA, watchRxB] Method lines startLineOffset
       [startLine - 1 .. min endLine (int (length lines)) - 1] [] 0 False"

definition parsePropsContent :: "string list \<Rightarrow> int \<Rightarrow> int \<Rightarrow> int \<Rightarrow> error + CodeElement list" where
  "parsePropsContent lines startLine endLine startLineOffset =
     bagLoop ''props'' [keyRx] Property lines startLineOffset
       [startLine - 1 .. min endLine (int (length lines)) - 1] [] 0 False"

fun dataLoop :: "string list \<Rightarrow> int \<Rightarrow> int list \<Rightarrow> CodeElement list \<Rightarrow> int \<Rightarrow> bool \<Rightarrow> bool
    \<Rightarrow> error + CodeElement list" where
  \<comment> \<open>the loop of \<^verbatim>\<open>parseDataContent\<close>\<close>
  "dataLoop lines startLineOffset [] data braceCount inData inReturn = Inr data"
| "dataLoop lines startLineOffset (i # rest) data braceCount inData inReturn =
     (case lineAt lines i of
        None \<Rightarrow> Inl TypeError
      | Some line \<Rightarrow>
          let trimmedLine = trim line in
          if js_skipped trimmedLine then
            dataLoop lines startLineOffset rest data braceCount inData inReturn
          else if includesStr trimmedLine ''data''
                  \<and> (includesStr trimmedLine ''{'' \<or> includesStr trimmedLine ''('') then
            dataLoop lines startLineOffset rest data (braceDelta trimmedLine) True inReturn
          else if \<not> inData then
            dataLoop lines startLineOffset rest data braceCount inData inReturn
          else if includesStr trimmedLine ''return'' \<and> includesStr trimmedLine ''{'' then
            dataLoop lines startLineOffset rest data (braceDelta trimmedLine) inData True
          else if \<not> inReturn then
            dataLoop lines startLineOffset rest data braceCount inData inReturn
          else
            (case rxMatch keyRx trimmedLine of
               Some dataMatch \<Rightarrow>
                 (case createElement (groupText dataMatch 1) Variable (i + 1 + startLineOffset)
                         line lines None None (Some i) of
                    Inl e \<Rightarrow> Inl e
                  | Inr dataElement \<Rightarrow>
                      if braceCount + braceDelta trimmedLine \<le> 0 then Inr (data @ [dataElement])
                      else dataLoop lines startLineOffset rest (data @ [dataElement])
                             (braceCount + braceDelta trimmedLine) inData inReturn)
             | None \<Rightarrow>
                 if braceCount + braceDelta trimmedLine \<le> 0 then Inr data
                 else dataLoop lines startLineOffset rest data
                        (braceCount + braceDelta trimmedLine) inData inReturn))"

definition parseDataContent :: "string list \<Rightarrow> int \<Rightarrow> int \<Rightarrow> int \<Rightarrow> error + CodeElement list" where
  "parseDataContent lines startLine endLine startLineOffset =
     dataLoop lines startLineOffset [startLine - 1 .. min endLine (int (length lines)) - 1]
       [] 0 False False"

definition bagRx :: "string \<Rightarrow> rx" where
  \<comment> \<open>\<^verbatim>\<open>/^\s*key\s*[:=]\s*{/\<close>\<close>
  "bagRx key = seqs [Bol, Star ws, lit key, Star ws, oneOf '':='', Star ws, Chr CHR ''{'']"

definition arrowBagRx :: "string \<Rightarrow> rx" where
  \<comment> \<open>\<^verbatim>\<open>/^\s*key\s*[:=]\s*(?:\([^)]*\)\s*=>\s*)?{/\<close>\<close>
  "arrowBagRx key = seqs [Bol, Star ws, lit key, Star ws, oneOf '':='', Star ws,
     Opt (seqs [Chr CHR ''('', Star (noneOf '')''), Chr CHR '')'', Star ws, lit ''=>'', Star ws]),
     Chr CHR ''{'']"

definition hookRx :: "string \<Rightarrow> rx" where
  \<comment> \<open>\<^verbatim>\<open>/^\s*key\s*\([^)]*\)\s*{/\<close>\<close>
  "hookRx key = seqs [Bol, Star ws, lit key, Star ws, Chr CHR ''('', Star (noneOf '')''),
     Chr CHR '')'', Star ws, Chr CHR ''{'']"

definition nameRx :: rx where
  \<comment> \<open>\<^verbatim>\<open>/^\s*name\s*[:=]\s*['"]([^'"]+)['"]/\<close>\<close>
  "nameRx = seqs [Bol, Star ws, lit ''name'', Star ws, oneOf '':='', Star ws,
     oneOf [CHR 0x27, CHR 0x22], Grp 1 (Plus (noneOf [CHR 0x27, CHR 0x22])),
     oneOf [CHR 0x27, CHR 0x22]]"

definition vuePropertyPatterns :: "(string \<times> rx \<times> string) list" where
  \<comment> \<open>name, pattern and type of the recognised keys, in the order of the source\<close>
  "vuePropertyPatterns =
     [(''name'', nameRx, ''property''),
      (''data'', arrowBagRx ''data'', ''data''),
      (''methods'', bagRx ''methods'', ''methods''),
      (''computed'', bagRx ''computed'', ''computed''),
      (''watch'', bagRx ''watch'', ''watch''),
      (''props'', bagRx ''props'', ''props''),
      (''components'', bagRx ''components'', ''components''),
      (''mounted'', hookRx ''mounted'', ''lifecycle''),
      (''created'', hookRx ''created'', ''lifecycle''),
      (''beforeMount'', hookRx ''beforeMount'', ''lifecycle''),
      (''beforeDestroy'', hookRx ''beforeDestroy'', ''lifecycle''),
      (''destroyed'', hookRx ''destroyed'', ''lifecycle''),
      (''beforeCreate'', hookRx ''beforeCreate'', ''lifecycle''),
      (''beforeUpdate'', hookRx ''beforeUpdate'', ''lifecycle''),
      (''updated'', hookRx ''updated'', ''lifecycle''),
      (''activated'', hookRx ''activated'', ''lifecycle''),
      (''deactivated'', hookRx ''deactivated'', ''lifecycle''),
      (''setup'', arrowBagRx ''setup'', ''setup'')]"

record currentProperty =
  cp_name :: string
  cp_startLine :: int
  cp_braceCount :: int
  cp_type :: string

definition propertyContent :: "string list \<Rightarrow> currentProperty \<Rightarrow> int \<Rightarrow> int
    \<Rightarrow> error + CodeElement list option" where
  \<comment> \<open>the children that the block of a key gives, by the type of the key; \<open>None\<close> leaves
      the children as they are\<close>
  "propertyContent lines cp endLine startLineOffset =
     (if cp_type cp = ''methods''
      then found (parseMethodsContent lines (cp_startLine cp) endLine startLineOffset)
      else if cp_type cp = ''computed''
      then found (parseComputedContent lines (cp_startLine cp) endLine startLineOffset)
      else if cp_type cp = ''data''
      then found (parseDataContent lines (cp_startLine cp) endLine startLineOffset)
      else if cp_type cp = ''watch''
      then found (parseWatchContent lines (cp_startLine cp) endLine startLineOffset)
      else if cp_type cp = ''props''
      then found (parsePropsContent lines (cp_startLine cp) endLine startLineOffset)
      else Inr None)"

fun setFirstChildren :: "string \<Rightarrow> CodeElement list \<Rightarrow> CodeElement list \<Rightarrow> CodeElement list" where
  \<comment> \<open>\<^verbatim>\<open>properties.find(p => p.name === name).children = cs\<close>\<close>
  "setFirstChildren name cs [] = []"
| "setFirstChildren name cs (p # ps) =
     (if el_name p = name then setChildren p cs # ps else p # setFirstChildren name cs ps)"

definition closeProperty :: "string list \<Rightarrow> currentProperty \<Rightarrow> int \<Rightarrow> int \<Rightarrow> CodeElement list
    \<Rightarrow> error + CodeElement list" where
  \<comment> \<open>the block of the current key has ended on line \<open>endLine\<close>\<close>
  "closeProperty lines cp endLine startLineOffset properties =
     (if \<exists>p \<in> set properties. el_name p = cp_name cp then
        (case propertyContent lines cp endLine startLineOffset of
           Inl e \<Rightarrow> Inl e
         | Inr (Some cs) \<Rightarrow> Inr (setFirstChildren (cp_name cp) cs properties)
         | Inr None \<Rightarrow> Inr properties)
      else Inr properties)"

fun exportLoop :: "string list \<Rightarrow> int \<Rightarrow> int list \<Rightarrow> CodeElement list \<Rightarrow> int \<Rightarrow> bool
    \<Rightarrow> currentProperty option \<Rightarrow> error + CodeElement list" where
  \<comment> \<open>the loop of \<^verbatim>\<open>parseExportDefaultProperties\<close> over the indices still to come\<close>
  "exportLoop lines startLineOffset [] properties braceCount inExportDefault current =
     Inr properties"
| "exportLoop lines startLineOffset (i # rest) properties braceCount inExportDefault current =
     (case lineAt lines i of
        None \<Rightarrow> Inl TypeError
      | Some line \<Rightarrow>
          let trimmedLine = trim line; lineBraceCount = braceDelta (trim line) in
          if js_skipped trimmedLine then
            exportLoop lines startLineOffset rest properties braceCount inExportDefault current
          else if includesStr trimmedLine ''export default'' \<and> includesStr trimmedLine ''{'' then
            exportLoop lines startLineOffset rest properties lineBraceCount True current
          else if \<not> inExportDefault then
            exportLoop lines startLineOffset rest properties braceCount inExportDefault current
          else
            (case current of
               Some cp \<Rightarrow>
                 if cp_braceCount cp + lineBraceCount \<le> 0 then
                   (case closeProperty lines cp (i + 1) startLineOffset properties of
                      Inl e \<Rightarrow> Inl e
                    | Inr properties' \<Rightarrow>
                        exportLoop lines startLineOffset rest properties'
                          (braceCount + lineBraceCount) inExportDefault None)
                 else
                   exportLoop lines startLineOffset rest properties (braceCount + lineBraceCount)
                     inExportDefault (Some (cp\<lparr>cp_braceCount := cp_braceCount cp + lineBraceCount\<rparr>))
             | None \<Rightarrow>
                 (case find (\<lambda>(name, pattern, ty). rxTest pattern trimmedLine) vuePropertyPatterns of
                    Some (name, pattern, ty) \<Rightarrow>
                      (case createElement name Property (i + 1 + startLineOffset) line lines
                              None None (Some i) of
                         Inl e \<Rightarrow> Inl e
                       | Inr element \<Rightarrow>
                           if braceCount + lineBraceCount \<le> 0 then Inr (properties @ [element])
                           else
                             exportLoop lines startLineOffset rest (properties @ [element])
                               (braceCount + lineBraceCount) inExportDefault
                               (if ty \<in> set [''methods'', ''computed'', ''data'', ''watch'', ''props'']
                                then Some \<lparr>cp_name = name, cp_startLine = i + 1,
                                            cp_braceCount = lineBraceCount, cp_type = ty\<rparr>
                                else None))
                  | None \<Rightarrow>
                      if braceCount + lineBraceCount \<le> 0 then Inr properties
                      else
                        exportLoop lines startLineOffset rest properties
                          (braceCount + lineBraceCount) inExportDefault None)))"

definition parseExportDefaultProperties :: "string list \<Rightarrow> int \<Rightarrow> int \<Rightarrow> error + CodeElement list" where
  \<comment> \<open>\<^verbatim>\<open>for (let i = startLine - 1; i < lines.length; i++)\<close>\<close>
  "parseExportDefaultProperties lines startLine startLineOffset =
     exportLoop lines startLineOffset [startLine - 1 .. int (length lines) - 1] [] 0 False None"

record js_state =
  js_elements :: "CodeElement list"
  js_inExportDefault :: bool
  js_exportDefaultStartLine :: int
  js_braceCount :: int

definition js_init :: js_state where
  "js_init = \<lparr>js_elements = [], js_inExportDefault = False, js_exportDefaultStartLine = 0,
     js_braceCount = 0\<rparr>"

definition js_push :: "CodeElement \<Rightarrow> js_state \<Rightarrow> js_state" where
  "js_push e st = st\<lparr>js_elements := js_elements st @ [e]\<rparr>"

definition declarations :: "string list \<Rightarrow> int \<Rightarrow> string \<Rightarrow> js_state \<Rightarrow> error + js_state" where
  \<comment> \<open>the ordinary declarations: class, function, interface\<close>
  "declarations lines lineNum trimmedLine st =
     (case js_parseClass trimmedLine lineNum lines of
        Inl e \<Rightarrow> Inl e
      | Inr (Some classElement) \<Rightarrow> Inr (js_push classElement st)
      | Inr None \<Rightarrow>
          (case parseFunction trimmedLine lineNum lines of
             Inl e \<Rightarrow> Inl e
           | Inr (Some functionElement) \<Rightarrow> Inr (js_push functionElement st)
           | Inr None \<Rightarrow>
               (case js_parseInterface trimmedLine lineNum lines of
                  Inl e \<Rightarrow> Inl e
                | Inr (Some interfaceElement) \<Rightarrow> Inr (js_push interfaceElement st)
                | Inr None \<Rightarrow> Inr st)))"

definition exportDefault :: "string list \<Rightarrow> int \<Rightarrow> int \<Rightarrow> string \<Rightarrow> js_state \<Rightarrow> error + js_state" where
  \<comment> \<open>a line with \<^verbatim>\<open>export default\<close> and an opening brace\<close>
  "exportDefault lines startLineOffset lineNum trimmedLine st =
     (if braceDelta trimmedLine > 0 then
        (case parseExportDefaultProperties lines lineNum startLineOffset of
           Inl e \<Rightarrow> Inl e
         | Inr properties \<Rightarrow>
             Inr (st\<lparr>js_elements := js_elements st
                       @ [plainElement ''export default'' Class (lineNum + startLineOffset) None
                            properties],
                     js_inExportDefault := True,
                     js_exportDefaultStartLine := lineNum + startLineOffset,
                     js_braceCount := braceDelta trimmedLine\<rparr>))
      else
        Inr (st\<lparr>js_elements := js_elements st
                  @ [plainElement ''export default'' Class (lineNum + startLineOffset) None []],
                js_inExportDefault := True,
                js_exportDefaultStartLine := lineNum + startLineOffset,
                js_braceCount := braceDelta trimmedLine\<rparr>))"

definition js_step :: "string list \<Rightarrow> int \<Rightarrow> int \<Rightarrow> string \<Rightarrow> js_state \<Rightarrow> error + js_state" where
  \<comment> \<open>the body of the loop over the lines; \<open>lineNum\<close> is already incremented\<close>
  "js_step lines startLineOffset lineNum line st =
     (let trimmedLine = trim line in
      if trimmedLine = [] \<or> startsWith trimmedLine ''//'' \<or> startsWith trimmedLine ''*''
         \<or> startsWith trimmedLine ''/**''
      then Inr st
      else if includesStr trimmedLine ''export default'' \<and> includesStr trimmedLine ''{''
      then exportDefault lines startLineOffset lineNum trimmedLine st
      else if js_inExportDefault st
      then Inr (st\<lparr>js_braceCount := js_braceCount st + braceDelta trimmedLine,
                   js_inExportDefault := \<not> (js_braceCount st + braceDelta trimmedLine \<le> 0)\<rparr>)
      else declarations lines lineNum trimmedLine st)"

fun js_loop :: "string list \<Rightarrow> int \<Rightarrow> int \<Rightarrow> string list \<Rightarrow> js_state \<Rightarrow> error + js_state" where
  "js_loop lines startLineOffset lineNum [] st = Inr st"
| "js_loop lines startLineOffset lineNum (line # rest) st =
     (case js_step lines startLineOffset (lineNum + 1) line st of
        Inl e \<Rightarrow> Inl e
      | Inr st' \<Rightarrow> js_loop lines startLineOffset (lineNum + 1) rest st')"

definition js_parse :: "string list \<Rightarrow> int \<Rightarrow> error + CodeElement list" where
  \<comment> \<open>\<^verbatim>\<open>JavaScriptParser.parse(document, lines, startLineOffset)\<close>\<close>
  "js_parse lines startLineOffset =
     (case js_loop lines startLineOffset 0 lines js_init of
        Inl e \<Rightarrow> Inl e
      | Inr st \<Rightarrow> Inr (js_elements st))"



section \<open>VueParser\<close>

definition templateRx :: rx where
  \<comment> \<open>\<^verbatim>\<open>/^<template\s/\<close>\<close>
  "templateRx = seqs [Bol, lit ''<template'', ws]"

definition styleRx :: rx where
  \<comment> \<open>\<^verbatim>\<open>/^<style\s/\<close>\<close>
  "styleRx = seqs [Bol, lit ''<style'', ws]"

definition parseScriptContent :: "string list \<Rightarrow> int \<Rightarrow> error + CodeElement list" where
  \<comment> \<open>the script lines go to a new \<^verbatim>\<open>JavaScriptParser\<close>; the offset is 0 when the
      caller gives none\<close>
  "parseScriptContent lines startLineOffset = js_parse lines startLineOffset"

text \<open>
  The variables of \<^verbatim>\<open>VueParser.parse\<close>. \<open>scriptElement\<close> is a reference to an element
  that is already in \<open>elements\<close>; here it is a path.
\<close>

record vue_state =
  vue_elements :: "CodeElement list"
  vue_inScriptTag :: bool
  vue_scriptContent :: "string list"
  vue_scriptElement :: "nat list option"
  vue_styleStartLine :: int
  vue_inTemplate :: bool
  vue_inStyle :: bool

definition vue_init :: vue_state where
  "vue_init = \<lparr>vue_elements = [], vue_inScriptTag = False, vue_scriptContent = [],
     vue_scriptElement = None, vue_styleStartLine = 0, vue_inTemplate = False,
     vue_inStyle = False\<rparr>"

definition closeScript :: "vue_state \<Rightarrow> error + vue_state" where
  \<comment> \<open>the line with \<^verbatim>\<open></script>\<close>: the collected lines are parsed with the offset
      \<^verbatim>\<open>scriptStartLine + 1\<close> and become the children of the script element\<close>
  "closeScript st =
     (case (if length (vue_scriptContent st) > 0 then vue_scriptElement st else None) of
        Some ref \<Rightarrow>
          (case getAt ref (vue_elements st) of
             None \<Rightarrow> Inl DanglingReference
           | Some scriptElement \<Rightarrow>
               (case parseScriptContent (vue_scriptContent st) (el_line scriptElement + 1) of
                  Inl e \<Rightarrow> Inl e
                | Inr scriptElements \<Rightarrow>
                    Inr (st\<lparr>vue_elements :=
                             (if length scriptElements > 0
                              then setChildrenAt ref scriptElements (vue_elements st)
                              else vue_elements st),
                            vue_inScriptTag := False, vue_scriptContent := [],
                            vue_scriptElement := None\<rparr>)))
      | None \<Rightarrow>
          Inr (st\<lparr>vue_inScriptTag := False, vue_scriptContent := [], vue_scriptElement := None\<rparr>))"

definition styleTags :: "int \<Rightarrow> string \<Rightarrow> vue_state \<Rightarrow> vue_state" where
  \<comment> \<open>the end of the loop body: the opening and the closing style tag\<close>
  "styleTags lineNum trimmedLine st =
     (if startsWith trimmedLine ''<style'' \<or> rxMatch styleRx trimmedLine \<noteq> None then
        st\<lparr>vue_styleStartLine := lineNum, vue_inStyle := True,
           vue_elements := vue_elements st
             @ [plainElement (if includesStr trimmedLine ''scoped'' then ''style scoped'' else ''style'')
                  Module lineNum None []]\<rparr>
      else if vue_inStyle st \<and> includesStr trimmedLine ''</style>'' then st\<lparr>vue_inStyle := False\<rparr>
      else st)"

definition vue_step :: "int \<Rightarrow> string \<Rightarrow> vue_state \<Rightarrow> error + vue_state" where
  \<comment> \<open>the body of the loop over the lines; \<open>lineNum\<close> is already incremented\<close>
  "vue_step lineNum line st =
     (let trimmedLine = trim line in
      if startsWith trimmedLine ''<template'' \<or> rxMatch templateRx trimmedLine \<noteq> None
      then Inr (st\<lparr>vue_inTemplate := True\<rparr>)
      else if vue_inTemplate st \<and> includesStr trimmedLine ''</template>''
      then Inr (st\<lparr>vue_inTemplate := False\<rparr>)
      else if vue_inTemplate st then Inr st
      else if includesStr trimmedLine ''<script''
      then Inr (st\<lparr>vue_inScriptTag := True,
                   vue_scriptElement := Some [length (vue_elements st)],
                   vue_elements := vue_elements st @ [plainElement ''script'' Module lineNum None []]\<rparr>)
      else if vue_inScriptTag st \<and> includesStr trimmedLine ''</script>''
      then closeScript st
      else if vue_inScriptTag st
      then Inr (styleTags lineNum trimmedLine
                  (st\<lparr>vue_scriptContent := vue_scriptContent st @ [line]\<rparr>))
      else Inr (styleTags lineNum trimmedLine st))"

fun vue_loop :: "int \<Rightarrow> string list \<Rightarrow> vue_state \<Rightarrow> error + vue_state" where
  "vue_loop lineNum [] st = Inr st"
| "vue_loop lineNum (line # rest) st =
     (case vue_step (lineNum + 1) line st of
        Inl e \<Rightarrow> Inl e
      | Inr st' \<Rightarrow> vue_loop (lineNum + 1) rest st')"

definition vue_parse :: "string list \<Rightarrow> error + CodeElement list" where
  \<comment> \<open>\<^verbatim>\<open>VueParser.parse\<close>\<close>
  "vue_parse lines =
     (case vue_loop 0 lines vue_init of
        Inl e \<Rightarrow> Inl e
      | Inr st \<Rightarrow>
          if length (vue_elements st) = 0 \<and> length (vue_scriptContent st) > 0
          then parseScriptContent (vue_scriptContent st) 0
          else Inr (vue_elements st))"

definition startTagRx :: rx where
  \<comment> \<open>\<^verbatim>\<open>/<([a-zA-Z][\w-]*)[^>]*>/\<close>\<close>
  "startTagRx = seqs [Chr CHR ''<'',
     Grp 1 (Seq (Cls isAlpha) (Star (Cls (\<lambda>c. isWord c \<or> c = CHR ''-'')))),
     Star (noneOf ''>''), Chr CHR ''>'']"

definition selfCloseRx1 :: rx where
  \<comment> \<open>\<^verbatim>\<open>/\/\s*>$/\<close>\<close>
  "selfCloseRx1 = seqs [Chr CHR ''/'', Star ws, Chr CHR ''>'', Eol]"

definition selfCloseRx2 :: rx where
  \<comment> \<open>\<^verbatim>\<open>/<[^>]+\/>/\<close>\<close>
  "selfCloseRx2 = seqs [Chr CHR ''<'', Plus (noneOf ''>''), lit ''/>'']"

definition attributeRx :: "string \<Rightarrow> rx" where
  \<comment> \<open>\<^verbatim>\<open>/attr\s*=\s*["']([^"']+)["']/\<close>\<close>
  "attributeRx attr = seqs [lit attr, Star ws, Chr CHR ''='', Star ws, oneOf [CHR 0x22, CHR 0x27],
     Grp 1 (Plus (noneOf [CHR 0x22, CHR 0x27])), oneOf [CHR 0x22, CHR 0x27]]"

definition endTagRx :: rx where
  \<comment> \<open>\<^verbatim>\<open>/<\/(\w+)>/\<close>\<close>
  "endTagRx = seqs [lit ''</'', Grp 1 (Plus wd), Chr CHR ''>'']"

text \<open>
  A frame of the tag stack of \<^verbatim>\<open>parseTemplateContent\<close>. The source keeps the tag name
  as an extra property of the element; the model keeps it in the frame, the only place
  it is read from. The stack is listed as the array is, its top last.
\<close>

record tagFrame =
  tf_element :: "nat list"
  tf_tagName :: string
  tf_startLine :: int
  tf_braceCount :: int

fun popNearest :: "string \<Rightarrow> tagFrame list \<Rightarrow> tagFrame list" where
  \<comment> \<open>on the stack listed from its top: the first frame with this tag name has its
      counter decremented and is removed when the counter is not positive any more\<close>
  "popNearest tagName [] = []"
| "popNearest tagName (f # fs) =
     (if tf_tagName f = tagName
      then (if tf_braceCount f - 1 \<le> 0 then fs else f\<lparr>tf_braceCount := tf_braceCount f - 1\<rparr> # fs)
      else f # popNearest tagName fs)"

definition place :: "CodeElement \<Rightarrow> CodeElement list \<Rightarrow> tagFrame list
    \<Rightarrow> error + (CodeElement list \<times> nat list)" where
  \<comment> \<open>the new element becomes a root when the stack is empty, else the last child of
      the element on top of the stack; the result has the path of the new element\<close>
  "place element elements stack =
     (if length stack = 0 then Inr (elements @ [element], [length elements])
      else
        (case getAt (tf_element (last stack)) elements of
           None \<Rightarrow> Inl DanglingReference
         | Some parent \<Rightarrow>
             Inr (pushAt (tf_element (last stack)) element elements,
                  tf_element (last stack) @ [length (el_children parent)])))"

definition startTag :: "string \<Rightarrow> int \<Rightarrow> captures \<Rightarrow> CodeElement list \<Rightarrow> tagFrame list
    \<Rightarrow> error + (CodeElement list \<times> tagFrame list)" where
  \<comment> \<open>a line with a start tag other than script, style and template\<close>
  "startTag trimmedLine currentLine startTagMatch elements stack =
     (case place
        (plainElement
           (case rxMatch (attributeRx ''id'') trimmedLine of
              Some idMatch \<Rightarrow> groupText idMatch 1
            | None \<Rightarrow>
                (case rxMatch (attributeRx ''class'') trimmedLine of
                   Some classMatch \<Rightarrow> groupText classMatch 1
                 | None \<Rightarrow> groupText startTagMatch 1))
           Module currentLine None [])
        elements stack of
        Inl e \<Rightarrow> Inl e
      | Inr (elements', ref) \<Rightarrow>
          if rxTest selfCloseRx1 trimmedLine \<or> rxMatch selfCloseRx2 trimmedLine \<noteq> None
          then Inr (elements', stack)
          else if includesStr trimmedLine (''</'' @ groupText startTagMatch 1 @ ''>'')
          then Inr (elements', stack)
          else Inr (elements',
                    stack @ [\<lparr>tf_element = ref, tf_tagName = groupText startTagMatch 1,
                               tf_startLine = currentLine, tf_braceCount = 1\<rparr>]))"

fun templateLoop :: "int \<Rightarrow> int \<Rightarrow> string list \<Rightarrow> CodeElement list \<Rightarrow> tagFrame list
    \<Rightarrow> error + CodeElement list" where
  \<comment> \<open>\<^verbatim>\<open>for (let i = 0; i < lines.length; i++)\<close> over the lines still to come\<close>
  "templateLoop startLine i [] elements stack = Inr elements"
| "templateLoop startLine i (line # rest) elements stack =
     (let trimmedLine = trim line in
      if trimmedLine = [] \<or> startsWith trimmedLine ''<!--''
      then templateLoop startLine (i + 1) rest elements stack
      else
        (case rxMatch startTagRx trimmedLine of
           Some startTagMatch \<Rightarrow>
             if toLowerCase (groupText startTagMatch 1) \<in> set [''script'', ''style'', ''template'']
             then templateLoop startLine (i + 1) rest elements stack
             else
               (case startTag trimmedLine (startLine + i) startTagMatch elements stack of
                  Inl e \<Rightarrow> Inl e
                | Inr (elements', stack') \<Rightarrow> templateLoop startLine (i + 1) rest elements' stack')
         | None \<Rightarrow>
             (case rxMatch endTagRx trimmedLine of
                Some endTagMatch \<Rightarrow>
                  if length stack > 0
                  then templateLoop startLine (i + 1) rest elements
                         (rev (popNearest (groupText endTagMatch 1) (rev stack)))
                  else templateLoop startLine (i + 1) rest elements stack
              | None \<Rightarrow> templateLoop startLine (i + 1) rest elements stack)))"

definition parseTemplateContent :: "string list \<Rightarrow> int \<Rightarrow> error + CodeElement list" where
  "parseTemplateContent lines startLine = templateLoop startLine 0 lines [] []"


section \<open>HtmlParser\<close>

definition scriptTagRx :: rx where
  \<comment> \<open>\<^verbatim>\<open>/<script[^>]*>/\<close>\<close>
  "scriptTagRx = seqs [lit ''<script'', Star (noneOf ''>''), Chr CHR ''>'']"

definition wordAttributeRx :: "string \<Rightarrow> nat \<Rightarrow> rx" where
  \<comment> \<open>\<^verbatim>\<open>/attr\s*=\s*["'](\w+)["']/\<close>, the group having number \<open>n\<close>\<close>
  "wordAttributeRx attr n = seqs [lit attr, Star ws, Chr CHR ''='', Star ws,
     oneOf [CHR 0x22, CHR 0x27], Grp n (Plus wd), oneOf [CHR 0x22, CHR 0x27]]"

definition mainElementRx :: rx where
  \<comment> \<open>\<^verbatim>\<open>/<(div|section|article|main|header|footer|nav|aside)[^>]*(?:id\s*=\s*["'](\w+)["']|class\s*=\s*["']([\w\s-]+)["'])?/\<close>\<close>
  "mainElementRx = seqs [Chr CHR ''<'',
     Grp 1 (alts [lit ''div'', lit ''section'', lit ''article'', lit ''main'', lit ''header'',
                  lit ''footer'', lit ''nav'', lit ''aside'']),
     Star (noneOf ''>''),
     Opt (Alt (wordAttributeRx ''id'' 2)
              (seqs [lit ''class'', Star ws, Chr CHR ''='', Star ws, oneOf [CHR 0x22, CHR 0x27],
                     Grp 3 (Plus (Cls (\<lambda>c. isWord c \<or> isSpace c \<or> c = CHR ''-''))),
                     oneOf [CHR 0x22, CHR 0x27]]))]"

definition parseScriptTag :: "string \<Rightarrow> int \<Rightarrow> string list \<Rightarrow> error + CodeElement option" where
  "parseScriptTag line lineNum lines =
     (case rxMatch scriptTagRx line of
        Some scriptMatch \<Rightarrow>
          found (createElement
            (case rxMatch (wordAttributeRx ''id'' 1) line of
               Some idMatch \<Rightarrow> groupText idMatch 1
             | None \<Rightarrow>
                 (case rxMatch (attributeRx ''src'') line of
                    Some srcMatch \<Rightarrow> groupText srcMatch 1
                  | None \<Rightarrow> ''script''))
            Module lineNum line lines None None None)
      | None \<Rightarrow> Inr None)"

definition parseMainElement :: "string \<Rightarrow> int \<Rightarrow> string list \<Rightarrow> error + CodeElement option" where
  \<comment> \<open>the name is \<^verbatim>\<open>id || className || tagName\<close>\<close>
  "parseMainElement line lineNum lines =
     (case rxMatch mainElementRx line of
        Some elementMatch \<Rightarrow>
          found (createElement
            (if truthy (grp elementMatch 2) then groupText elementMatch 2
             else if truthy (grp elementMatch 3) then groupText elementMatch 3
             else groupText elementMatch 1)
            Module lineNum line lines None None None)
      | None \<Rightarrow> Inr None)"

definition html_step :: "string list \<Rightarrow> int \<Rightarrow> string \<Rightarrow> CodeElement list
    \<Rightarrow> error + CodeElement list" where
  "html_step lines lineNum line elements =
     (let trimmedLine = trim line in
      if trimmedLine = [] \<or> startsWith trimmedLine ''<!--'' \<or> startsWith trimmedLine ''//''
      then Inr elements
      else
        (case parseScriptTag trimmedLine lineNum lines of
           Inl e \<Rightarrow> Inl e
         | Inr (Some scriptElement) \<Rightarrow> Inr (elements @ [scriptElement])
         | Inr None \<Rightarrow>
             (case parseMainElement trimmedLine lineNum lines of
                Inl e \<Rightarrow> Inl e
              | Inr (Some mainElement) \<Rightarrow> Inr (elements @ [mainElement])
              | Inr None \<Rightarrow> Inr elements)))"

fun html_loop :: "string list \<Rightarrow> int \<Rightarrow> string list \<Rightarrow> CodeElement list
    \<Rightarrow> error + CodeElement list" where
  "html_loop lines lineNum [] elements = Inr elements"
| "html_loop lines lineNum (line # rest) elements =
     (case html_step lines (lineNum + 1) line elements of
        Inl e \<Rightarrow> Inl e
      | Inr elements' \<Rightarrow> html_loop lines (lineNum + 1) rest elements')"

definition html_parse :: "string list \<Rightarrow> error + CodeElement list" where
  \<comment> \<open>\<^verbatim>\<open>HtmlParser.parse\<close>\<close>
  "html_parse lines = html_loop lines 0 lines []"


section \<open>ParserFactory\<close>

text \<open>
  The registry maps an extension to a parser class. \<^verbatim>\<open>createParser\<close> returns a new
  instance of the class it finds; an instance has no state, and the model returns the
  class. A class registered at run time is any value of the type \<open>'p\<close>; the classes of
  the initial registry are the values of \<open>ParserClass\<close>. The registry is a static field
  of the source; here it is passed in, and \<^verbatim>\<open>registerParser\<close> returns the new one.
\<close>

datatype ParserClass = CSharpParser | JavaParser | JavaScriptParser | VueParser | HtmlParser

definition parsers :: "string \<rightharpoonup> ParserClass" where
  "parsers = [''.cs'' \<mapsto> CSharpParser, ''.java'' \<mapsto> JavaParser, ''.js'' \<mapsto> JavaScriptParser,
     ''.ts'' \<mapsto> JavaScriptParser, ''.vue'' \<mapsto> VueParser, ''.html'' \<mapsto> HtmlParser,
     ''.htm'' \<mapsto> HtmlParser]"

definition extension :: "string \<Rightarrow> string" where
  \<comment> \<open>\<^verbatim>\<open>filePath.substring(filePath.lastIndexOf('.')).toLowerCase()\<close>\<close>
  "extension filePath = toLowerCase (substringFrom filePath (lastIndexOf filePath ''.''))"

definition createParser :: "(string \<rightharpoonup> 'p) \<Rightarrow> string \<Rightarrow> 'p option" where
  \<comment> \<open>\<open>None\<close> is \<^verbatim>\<open>null\<close>\<close>
  "createParser registry filePath = registry (extension filePath)"

definition registerParser :: "(string \<rightharpoonup> 'p) \<Rightarrow> string \<Rightarrow> 'p \<Rightarrow> (string \<rightharpoonup> 'p)" where
  \<comment> \<open>\<^verbatim>\<open>this.parsers.set(extension.toLowerCase(), ParserClass)\<close>\<close>
  "registerParser registry ext parserClass = registry(toLowerCase ext \<mapsto> parserClass)"

definition isSupported :: "(string \<rightharpoonup> 'p) \<Rightarrow> string \<Rightarrow> bool" where
  "isSupported registry filePath = (registry (extension filePath) \<noteq> None)"



section \<open>Notions used in the statements\<close>

text \<open>\<open>binds n r\<close>: every match of \<open>r\<close> sets the capture group \<open>n\<close>.\<close>

primrec binds :: "nat \<Rightarrow> rx \<Rightarrow> bool" where
  "binds n (Chr a) = False"
| "binds n (ChrI a) = False"
| "binds n (Cls p) = False"
| "binds n (Seq a b) = (binds n a \<or> binds n b)"
| "binds n (Alt a b) = (binds n a \<and> binds n b)"
| "binds n (Star r) = False"
| "binds n (Lazy r) = False"
| "binds n (Grp j r) = (j = n \<or> binds n r)"
| "binds n Bol = False"
| "binds n Eol = False"
| "binds n Eps = False"

fun bindsStack :: "nat \<Rightarrow> frame list \<Rightarrow> bool" where
  "bindsStack n [] = False"
| "bindsStack n (R r # k) = (binds n r \<or> bindsStack n k)"
| "bindsStack n (Close j s # k) = (j = n \<or> bindsStack n k)"
| "bindsStack n (Check j # k) = bindsStack n k"

text \<open>
  \<open>constructorsNamed e\<close>: everywhere in the tree of \<open>e\<close>, a child of type constructor has
  the name of the element it is a child of.
\<close>

fun constructorsNamed :: "CodeElement \<Rightarrow> bool" where
  "constructorsNamed (CodeElement name ty acc line children comment returnType parameters ret ps) =
     (\<forall>m \<in> set children. (el_type m = Constructor \<longrightarrow> el_name m = name) \<and> constructorsNamed m)"

text \<open>
  \<open>pseudo line c\<close>: \<open>c\<close> is a synthesized node of a callable declared on \<open>line\<close>: a
  variable with default accessibility on that line.
\<close>

definition pseudo :: "int \<Rightarrow> CodeElement \<Rightarrow> bool" where
  "pseudo line c = (el_type c = Variable \<and> el_accessModifier c = Default \<and> el_line c = line)"



text \<open>\<open>documented info\<close>: the parameter descriptions that the documentation gave.\<close>

definition documented :: "XmlCommentInfo \<Rightarrow> (string \<times> string) list" where
  "documented info = (case params info of Some ps \<Rightarrow> ps | None \<Rightarrow> [])"

definition commentIndex :: "int \<Rightarrow> int option \<Rightarrow> int" where
  \<comment> \<open>the index \<^verbatim>\<open>createElement\<close> looks for comments from:
      \<^verbatim>\<open>lineIndex !== undefined ? lineIndex : (line - 1)\<close>\<close>
  "commentIndex line lineIndex = (case lineIndex of Some i \<Rightarrow> i | None \<Rightarrow> line - 1)"



text \<open>
  \<open>validRefs st\<close>: the open frames of the scanner state refer to elements of the tree
  built so far, the class frame to an element of type class.
\<close>

definition validRefs :: "cs_state \<Rightarrow> bool" where
  "validRefs st =
     ((case cs_currentNamespace st of
         None \<Rightarrow> True
       | Some ns \<Rightarrow> (\<exists>n. getAt ns (cs_elements st) = Some n))
      \<and> (case cs_currentClass st of
           None \<Rightarrow> True
         | Some cls \<Rightarrow> (\<exists>c. getAt cls (cs_elements st) = Some c \<and> el_type c = Class)))"

definition wellNamed :: "CodeElement list \<Rightarrow> bool" where
  "wellNamed es = list_all constructorsNamed es"

definition scanInv :: "cs_state \<Rightarrow> bool" where
  \<comment> \<open>the invariant of the loop of \<^verbatim>\<open>CSharpParser.parse\<close>\<close>
  "scanInv st = (validRefs st \<and> wellNamed (cs_elements st))"

text \<open>\<open>scanned lines k\<close>: the state of the scan of \<open>lines\<close> after its first \<open>k\<close> lines.\<close>

definition scanned :: "string list \<Rightarrow> nat \<Rightarrow> error + cs_state" where
  "scanned lines k = cs_loop lines 0 (take k lines) cs_init"


text \<open>
  \<open>noFallback st\<close>: as long as the Container Scanner has emitted no element, it has
  collected no script line.
\<close>

definition noFallback :: "vue_state \<Rightarrow> bool" where
  "noFallback st = (vue_elements st = [] \<longrightarrow> vue_scriptContent st = [] \<and> \<not> vue_inScriptTag st)"

section \<open>Inputs of the examples\<close>

definition addLines :: "string list" where
  \<comment> \<open>a documented method inside a class\<close>
  "addLines = [''class C {'', ''/// <summary>Add two numbers</summary>'',
     ''/// <param name=\"a\">first</param>'', ''public int Add(int a,int b){}'', ''}'']"

definition addInfo :: XmlCommentInfo where
  "addInfo = \<lparr>summary = Some ''Add two numbers'', params = Some [(''a'', ''first'')],
     returns = None\<rparr>"

definition addElement :: CodeElement where
  "addElement = CodeElement ''Add'' Method Public 4
     [plainElement descriptionLabel Variable 4 (Some ''Add two numbers'') [],
      plainElement parametersLabel Variable 4 None
        [plainElement ''a'' Variable 4 (Some ''first'') []]]
     (Some ''Add two numbers'') (Some ''int'') (Some ''int a,int b'') None None"

definition optionsLines :: "string list" where
  \<comment> \<open>a default export with a methods bag, one brace per line\<close>
  "optionsLines = [''export default {'', ''  methods: {'', ''    foo() {}'', ''  }'', ''}'']"

definition markupLines :: "string list" where
  \<comment> \<open>a div with a span inside, one tag per line\<close>
  "markupLines = [''<div id=\"x\">'', ''<span>...</span>'', ''</div>'']"










definition openLines :: "string list" where
  \<comment> \<open>a class that is not closed before the end of the input\<close>
  "openLines = [''class Foo {'', ''public void M() {'', ''int x = 1;'']"

definition openState :: cs_state where
  \<comment> \<open>the state of the scan of \<open>openLines\<close> at the end of the input\<close>
  "openState = \<lparr>cs_elements = [CodeElement ''Foo'' Class Default 1
        [CodeElement ''M'' Method Public 2 [] None (Some ''void'') (Some []) None None]
        None None None None None],
     cs_braceCount = 2, cs_currentNamespace = None, cs_namespaceStartBrace = - 1,
     cs_currentClass = Some [0], cs_classStartBrace = 0, cs_inMethod = False,
     cs_methodBraceLevel = - 1\<rparr>"


section \<open>Properties of the regular expressions\<close>

subsection \<open>Capture groups on the mandatory path are set\<close>

lemma rxRun_binds:
  "rxRun k b s c = Some (rest, c') \<Longrightarrow> bindsStack n k \<or> n \<in> fst ` set c \<Longrightarrow> n \<in> fst ` set c'"
proof (induction k b s c arbitrary: rest c' rule: rxRun.induct)
  case (1 b s c)
  then show ?case by simp
next
  case (2 a k b s c)
  then show ?case by (auto split: list.splits if_splits)
next
  case (3 a k b s c)
  then show ?case by (auto split: list.splits if_splits)
next
  case (4 p k b s c)
  then show ?case by (auto split: list.splits if_splits)
next
  case (5 r1 r2 k b s c)
  then show ?case by auto
next
  case (6 r1 r2 k b s c)
  then show ?case by (auto split: option.splits)
next
  case (7 r k b s c)
  then show ?case by (auto split: option.splits)
next
  case (8 r k b s c)
  then show ?case by (auto split: option.splits)
next
  case (9 n r k b s c)
  then show ?case by auto
next
  case (10 k b s c)
  then show ?case by (auto split: if_splits)
next
  case (11 k b s c)
  then show ?case by (auto split: if_splits)
next
  case (12 k b s c)
  then show ?case by auto
next
  case (13 n s0 k b s c)
  then show ?case by auto
next
  case (14 n k b s c)
  then show ?case by (auto split: if_splits)
qed

lemma rxSearch_binds:
  "rxSearch r b s = Some (at, rest, c) \<Longrightarrow> binds n r \<Longrightarrow> grp c n \<noteq> None"
proof (induction r b s rule: rxSearch.induct)
  case (1 r b s)
  show ?case
  proof (cases "rxRun [R (Grp 0 r)] b s []")
    case None
    with 1 show ?thesis by (subst (asm) (2) rxSearch.simps) (auto split: list.splits)
  next
    case (Some res)
    obtain rest0 c0 where res: "res = (rest0, c0)" by (cases res)
    from Some res 1(2) have c: "c = c0" by (subst (asm) rxSearch.simps) simp
    from Some res have "n \<in> fst ` set c0"
      using rxRun_binds [of "[R (Grp 0 r)]" b s "[]" rest0 c0 n] 1(3) by simp
    then show ?thesis
      by (simp add: c grp_def map_of_eq_None_iff)
  qed
qed

lemma rxMatch_binds: "rxMatch r s = Some c \<Longrightarrow> binds n r \<Longrightarrow> grp c n \<noteq> None"
  unfolding rxMatch_def using rxSearch_binds by fastforce

lemma rxMatchAll_binds:
  "c \<in> set (rxMatchAll r b s) \<Longrightarrow> binds n r \<Longrightarrow> grp c n \<noteq> None"
proof (induction r b s rule: rxMatchAll.induct)
  case (1 r b s)
  show ?case
  proof (cases "rxSearch r b s")
    case None
    with 1(2) show ?thesis by (simp add: rxMatchAll.simps [of r b s])
  next
    case (Some res)
    obtain at rest c0 where res: "res = (at, rest, c0)" by (cases res)
    define nxt where "nxt = (if length rest < length at then rest else drop 1 rest)"
    have unfold: "rxMatchAll r b s =
        c0 # (if length nxt < length s then rxMatchAll r False nxt else [])"
      by (simp add: rxMatchAll.simps [of r b s] Some res nxt_def Let_def)
    from 1(2) have "c = c0 \<or> (length nxt < length s \<and> c \<in> set (rxMatchAll r False nxt))"
      unfolding unfold by (cases "length nxt < length s") simp_all
    then show ?thesis
    proof
      assume "c = c0"
      with Some res 1(3) show ?thesis using rxSearch_binds by blast
    next
      assume a: "length nxt < length s \<and> c \<in> set (rxMatchAll r False nxt)"
      have "rxSearch r b s = Some res" by (rule Some)
      moreover have "(at, rest, c0) = res" by (simp add: res)
      moreover have "(rest, c0) = (rest, c0)" by simp
      ultimately show ?thesis
        using 1(1) [of res at "(rest, c0)" rest c0 nxt] a 1(3) nxt_def by blast
    qed
  qed
qed

lemma firstMatch_binds:
  "firstMatch rs s = Some c \<Longrightarrow> \<forall>r \<in> set rs. binds n r \<Longrightarrow> grp c n \<noteq> None"
  by (induction rs) (auto split: option.splits dest: rxMatch_binds)

lemma binds_seqs [simp]: "binds n (seqs rs) = (\<exists>r \<in> set rs. binds n r)"
  by (induction rs rule: seqs.induct) auto

section \<open>Properties of the element builder\<close>

subsection \<open>The element builder does not throw\<close>

lemma tagText_ok: "binds 1 r \<Longrightarrow> \<exists>v. tagText r x = Inr v"
  unfolding tagText_def
  by (auto split: option.splits dest: rxMatch_binds)

lemma paramList_ok: "\<forall>c \<in> set cs. grp c 2 \<noteq> None \<Longrightarrow> \<exists>ps. paramList cs = Inr ps"
  by (induction cs) (auto split: option.splits sum.splits)

lemma binds_summaryRx: "binds 1 summaryRx"
  by (simp add: summaryRx_def)

lemma binds_returnsRx: "binds 1 returnsRx"
  by (simp add: returnsRx_def)

lemma binds_paramRx: "binds 2 paramRx"
  by (simp add: paramRx_def)

lemma extractXmlCommentInfo_ok: "\<exists>info. extractXmlCommentInfo lines lineIndex = Inr info"
proof -
  have p: "\<exists>ps. paramList (rxMatchAll paramRx True x) = Inr ps" for x
    by (rule paramList_ok) (auto dest: rxMatchAll_binds [OF _ binds_paramRx])
  show ?thesis
    unfolding extractXmlCommentInfo_def
    using tagText_ok [OF binds_summaryRx] tagText_ok [OF binds_returnsRx] p
    by (auto split: list.splits sum.splits) (metis Inl_Inr_False)+
qed

lemma plainScan_ok:
  "\<forall>i \<in> set idx. i < length lines \<Longrightarrow> \<exists>v. plainScan lines n idx = Inr v"
  by (induction idx) (auto simp: nthOpt_def)

lemma xmlSummary_ok: "\<exists>v. xmlSummary ls = Inr v"
  unfolding xmlSummary_def
  using tagText_ok [OF binds_summaryRx]
  by (auto split: sum.splits option.splits) (metis Inl_Inr_False)

lemma extractComment_ok: "\<exists>v. extractComment lines lineIndex = Inr v"
proof (cases "lineIndex < 0 \<or> lineIndex \<ge> int (length lines)")
  case True
  then show ?thesis by (auto simp: extractComment_def)
next
  case False
  then have "\<forall>i \<in> set (downFrom (nat lineIndex) 5). i < length lines"
    by (auto simp: downFrom_def)
  from plainScan_ok [OF this] xmlSummary_ok False show ?thesis
    unfolding extractComment_def
    by (auto split: sum.splits option.splits) (metis Inl_Inr_False)
qed

lemma createElement_ok:
  "\<exists>e. createElement name ty line lineText lines returnType parameters lineIndex = Inr e"
  unfolding createElement_def
  using extractXmlCommentInfo_ok extractComment_ok
  by (auto split: sum.splits) (metis Inl_Inr_False)+

subsection \<open>The shape of a built element\<close>

lemma createElement_shape:
  assumes "createElement name ty line lineText lines returnType parameters lineIndex = Inr e"
  shows "\<exists>info. extractXmlCommentInfo lines (commentIndex line lineIndex) = Inr info
     \<and> el_name e = name \<and> el_type e = ty \<and> el_line e = line
     \<and> el_accessModifier e = extractAccessModifier lineText
     \<and> el_returnType e = returnType \<and> el_parameters e = parameters
     \<and> el_returns e = returns info \<and> el_params e = None
     \<and> el_children e =
           (if ty = Method \<or> ty = Constructor
            then descriptionNodes line (el_comment e) @ parametersNodes line (params info)
                 @ returnsNodes line (returns info)
            else [])"
  using assms unfolding createElement_def commentIndex_def
  by (auto split: sum.splits)

lemma descriptionNodes_cases:
  "(truthy v \<and> (\<exists>t. v = Some t \<and> descriptionNodes line v
       = [plainElement descriptionLabel Variable line (Some (stripLeading CHR ''/'' t)) []]))
   \<or> (\<not> truthy v \<and> descriptionNodes line v = [])"
  by (auto simp: descriptionNodes_def truthy_def split: option.splits)

lemma returnsNodes_cases:
  "(truthy v \<and> (\<exists>t. v = Some t \<and> returnsNodes line v
       = [plainElement returnsLabel Variable line (Some (stripLeading CHR ''/'' t)) []]))
   \<or> (\<not> truthy v \<and> returnsNodes line v = [])"
  by (auto simp: returnsNodes_def truthy_def split: option.splits)

lemma parametersNodes_cases:
  "(ps \<noteq> None \<and> the ps \<noteq> [] \<and> parametersNodes line ps
       = [plainElement parametersLabel Variable line None (map (parameterNode line) (the ps))])
   \<or> ((ps = None \<or> ps = Some []) \<and> parametersNodes line ps = [])"
  by (auto simp: parametersNodes_def split: option.splits)

lemma add_element:
  "createElement ''Add'' Method 4 ''public int Add(int a,int b){}'' addLines (Some ''int'')
     (Some ''int a,int b'') None = Inr addElement"
  by code_simp

lemma add_info: "extractXmlCommentInfo addLines (commentIndex 4 None) = Inr addInfo"
  by code_simp

subsection \<open>Synthesized children\<close>

text \<open>
  Claim C2, as the source has it. \<^verbatim>\<open>createElement\<close> synthesizes the pseudo-elements
  for the types method and constructor only: the children of such an element are a
  description node, a parameters node and a returns node, in this order, each of them
  present exactly when its data is not empty (the comment of the element, the
  documented parameters, the return description of the element); the parameters node
  has one child per documented parameter, in their order. An element of any other type
  (function included) has no children.
\<close>

theorem C2_pseudo_children:
  assumes "createElement name ty line lineText lines returnType parameters lineIndex = Inr e"
    and "extractXmlCommentInfo lines (commentIndex line lineIndex) = Inr info"
  shows "(ty = Method \<or> ty = Constructor \<longrightarrow>
      (\<exists>D P Rn. el_children e = D @ P @ Rn
         \<and> (D = [] \<longleftrightarrow> \<not> truthy (el_comment e))
         \<and> (\<forall>d \<in> set D. D = [d] \<and> el_name d = descriptionLabel \<and> el_type d = Variable
               \<and> el_comment d = map_option (stripLeading CHR ''/'') (el_comment e)
               \<and> el_children d = [])
         \<and> (P = [] \<longleftrightarrow> documented info = [])
         \<and> (\<forall>p \<in> set P. P = [p] \<and> el_name p = parametersLabel \<and> el_type p = Variable
               \<and> map (\<lambda>g. (el_name g, el_comment g)) (el_children p)
                   = map (\<lambda>(n, d). (n, Some (stripLeading CHR ''/'' d))) (documented info)
               \<and> (\<forall>g \<in> set (el_children p). el_type g = Variable))
         \<and> (Rn = [] \<longleftrightarrow> \<not> truthy (el_returns e))
         \<and> (\<forall>r \<in> set Rn. Rn = [r] \<and> el_name r = returnsLabel \<and> el_type r = Variable
               \<and> el_comment r = map_option (stripLeading CHR ''/'') (el_returns e)
               \<and> el_children r = [])))
    \<and> (ty \<noteq> Method \<and> ty \<noteq> Constructor \<longrightarrow> el_children e = [])"
proof -
  from createElement_shape [OF assms(1)] assms(2)
  have ch: "el_children e = (if ty = Method \<or> ty = Constructor
            then descriptionNodes line (el_comment e) @ parametersNodes line (params info)
                 @ returnsNodes line (returns info)
            else [])"
    and rt: "el_returns e = returns info"
    by auto
  show ?thesis
  proof (intro conjI impI)
    assume callable: "ty = Method \<or> ty = Constructor"
    let ?D = "descriptionNodes line (el_comment e)"
    let ?P = "parametersNodes line (params info)"
    let ?R = "returnsNodes line (returns info)"
    have 1: "el_children e = ?D @ ?P @ ?R" using ch callable by simp
    have 2: "(?D = [] \<longleftrightarrow> \<not> truthy (el_comment e))"
      using descriptionNodes_cases [of "el_comment e" line] by auto
    have 3: "\<forall>d \<in> set ?D. ?D = [d] \<and> el_name d = descriptionLabel \<and> el_type d = Variable
               \<and> el_comment d = map_option (stripLeading CHR ''/'') (el_comment e)
               \<and> el_children d = []"
      using descriptionNodes_cases [of "el_comment e" line] by (auto simp: plainElement_def)
    have 4: "(?P = [] \<longleftrightarrow> documented info = [])"
      using parametersNodes_cases [of "params info" line]
      by (auto simp: documented_def split: option.splits)
    have 5: "\<forall>p \<in> set ?P. ?P = [p] \<and> el_name p = parametersLabel \<and> el_type p = Variable
               \<and> map (\<lambda>g. (el_name g, el_comment g)) (el_children p)
                   = map (\<lambda>(n, d). (n, Some (stripLeading CHR ''/'' d))) (documented info)
               \<and> (\<forall>g \<in> set (el_children p). el_type g = Variable)"
      using parametersNodes_cases [of "params info" line]
      by (auto simp: documented_def plainElement_def parameterNode_def split: option.splits)
    have 6: "(?R = [] \<longleftrightarrow> \<not> truthy (el_returns e))"
      using returnsNodes_cases [of "returns info" line] rt by auto
    have 7: "\<forall>r \<in> set ?R. ?R = [r] \<and> el_name r = returnsLabel \<and> el_type r = Variable
               \<and> el_comment r = map_option (stripLeading CHR ''/'') (el_returns e)
               \<and> el_children r = []"
      using returnsNodes_cases [of "returns info" line] rt by (auto simp: plainElement_def)
    from 1 2 3 4 5 6 7 show "\<exists>D P Rn. el_children e = D @ P @ Rn
         \<and> (D = [] \<longleftrightarrow> \<not> truthy (el_comment e))
         \<and> (\<forall>d \<in> set D. D = [d] \<and> el_name d = descriptionLabel \<and> el_type d = Variable
               \<and> el_comment d = map_option (stripLeading CHR ''/'') (el_comment e)
               \<and> el_children d = [])
         \<and> (P = [] \<longleftrightarrow> documented info = [])
         \<and> (\<forall>p \<in> set P. P = [p] \<and> el_name p = parametersLabel \<and> el_type p = Variable
               \<and> map (\<lambda>g. (el_name g, el_comment g)) (el_children p)
                   = map (\<lambda>(n, d). (n, Some (stripLeading CHR ''/'' d))) (documented info)
               \<and> (\<forall>g \<in> set (el_children p). el_type g = Variable))
         \<and> (Rn = [] \<longleftrightarrow> \<not> truthy (el_returns e))
         \<and> (\<forall>r \<in> set Rn. Rn = [r] \<and> el_name r = returnsLabel \<and> el_type r = Variable
               \<and> el_comment r = map_option (stripLeading CHR ''/'') (el_returns e)
               \<and> el_children r = [])"
      by blast
  next
    assume "ty \<noteq> Method \<and> ty \<noteq> Constructor"
    then show "el_children e = []" using ch by simp
  qed
qed


theorem C2_pseudo_children_witness:
  "createElement ''Add'' Method 4 ''public int Add(int a,int b){}'' addLines (Some ''int'')
     (Some ''int a,int b'') None = Inr addElement
   \<and> extractXmlCommentInfo addLines (commentIndex 4 None) = Inr addInfo
   \<and> (\<exists>D P Rn. el_children addElement = D @ P @ Rn
         \<and> (D = [] \<longleftrightarrow> \<not> truthy (el_comment addElement))
         \<and> (P = [] \<longleftrightarrow> documented addInfo = [])
         \<and> (Rn = [] \<longleftrightarrow> \<not> truthy (el_returns addElement)))"
proof -
  from C2_pseudo_children [OF add_element add_info]
  have "\<exists>D P Rn. el_children addElement = D @ P @ Rn
         \<and> (D = [] \<longleftrightarrow> \<not> truthy (el_comment addElement))
         \<and> (P = [] \<longleftrightarrow> documented addInfo = [])
         \<and> (Rn = [] \<longleftrightarrow> \<not> truthy (el_returns addElement))"
    by blast
  with add_element add_info show ?thesis by blast
qed

text \<open>
  Claim C2 as stated fails for the type function: a function whose documentation has
  a summary gets the summary as its comment and no children.
\<close>

theorem C2_function_counterexample:
  "createElement ''f'' Function 2 ''function f() {}''
     [''/// <summary>x</summary>'', ''function f() {}''] None None None
   = Inr (CodeElement ''f'' Function Default 2 [] (Some ''x'') None None None None)"
  by code_simp

text \<open>
  Claim C10. Every child of an element built by \<^verbatim>\<open>createElement\<close> is a variable with
  default accessibility on the line of the element; the parameters node has exactly
  the nodes of the documented parameters as children, each again such a variable
  without children; every other child has no children.
\<close>

theorem C10_pseudo_fields:
  assumes "createElement name ty line lineText lines returnType parameters lineIndex = Inr e"
    and "extractXmlCommentInfo lines (commentIndex line lineIndex) = Inr info"
  shows "\<forall>c \<in> set (el_children e).
      pseudo (el_line e) c
      \<and> (if el_name c = parametersLabel
         then map (\<lambda>g. (el_name g, el_comment g)) (el_children c)
                = map (\<lambda>(n, d). (n, Some (stripLeading CHR ''/'' d))) (documented info)
              \<and> (\<forall>g \<in> set (el_children c). pseudo (el_line e) g \<and> el_children g = [])
         else el_children c = [])"
proof -
  from createElement_shape [OF assms(1)] assms(2)
  have ch: "el_children e = (if ty = Method \<or> ty = Constructor
            then descriptionNodes line (el_comment e) @ parametersNodes line (params info)
                 @ returnsNodes line (returns info)
            else [])"
    and ln: "el_line e = line"
    by auto
  have labels: "descriptionLabel \<noteq> parametersLabel" "returnsLabel \<noteq> parametersLabel"
    by (simp_all add: descriptionLabel_def parametersLabel_def returnsLabel_def)
  show ?thesis
  proof
    fix c assume "c \<in> set (el_children e)"
    then consider (d) "c \<in> set (descriptionNodes line (el_comment e))"
      | (p) "c \<in> set (parametersNodes line (params info))"
      | (r) "c \<in> set (returnsNodes line (returns info))"
      using ch by (auto split: if_splits)
    then show "pseudo (el_line e) c
      \<and> (if el_name c = parametersLabel
         then map (\<lambda>g. (el_name g, el_comment g)) (el_children c)
                = map (\<lambda>(n, d). (n, Some (stripLeading CHR ''/'' d))) (documented info)
              \<and> (\<forall>g \<in> set (el_children c). pseudo (el_line e) g \<and> el_children g = [])
         else el_children c = [])"
    proof cases
      case d
      then show ?thesis
        using descriptionNodes_cases [of "el_comment e" line] labels
        by (auto simp: plainElement_def pseudo_def ln)
    next
      case p
      then show ?thesis
        using parametersNodes_cases [of "params info" line]
        by (auto simp: plainElement_def pseudo_def ln documented_def parameterNode_def
            split: option.splits)
    next
      case r
      then show ?thesis
        using returnsNodes_cases [of "returns info" line] labels
        by (auto simp: plainElement_def pseudo_def ln)
    qed
  qed
qed


theorem C10_pseudo_fields_witness:
  "createElement ''Add'' Method 4 ''public int Add(int a,int b){}'' addLines (Some ''int'')
     (Some ''int a,int b'') None = Inr addElement
   \<and> extractXmlCommentInfo addLines (commentIndex 4 None) = Inr addInfo
   \<and> list_all (pseudo (el_line addElement)) (el_children addElement)"
proof -
  from C10_pseudo_fields [OF add_element add_info]
  have "list_all (pseudo (el_line addElement)) (el_children addElement)"
    unfolding list_all_iff by blast
  with add_element add_info show ?thesis by blast
qed


section \<open>The brace-depth scanner\<close>

subsection \<open>References into the tree\<close>

lemma nthOpt_append: "nthOpt es i = Some x \<Longrightarrow> nthOpt (es @ [e]) i = Some x"
  by (auto simp: nthOpt_def nth_append split: if_splits)

lemma nthOpt_Some: "nthOpt es i = Some x \<longleftrightarrow> i < length es \<and> es ! i = x"
  by (auto simp: nthOpt_def)

lemma nthOpt_None: "nthOpt es i = None \<longleftrightarrow> \<not> i < length es"
  by (auto simp: nthOpt_def)

lemma setChildren_sel [simp]:
  "el_name (setChildren x cs) = el_name x" "el_type (setChildren x cs) = el_type x"
  "el_children (setChildren x cs) = cs"
  by (simp_all add: setChildren_def)

lemma getAt_append: "getAt p es = Some x \<Longrightarrow> getAt p (es @ [e]) = Some x"
  by (cases p) (auto simp: nthOpt_Some nth_append split: option.splits if_splits)

lemma getAt_last: "getAt [length es] (es @ [e]) = Some e"
  by (simp add: nthOpt_def)

lemma length_pushAt: "p \<noteq> [] \<Longrightarrow> length (pushAt p e es) = length es"
  by (cases p) (auto split: option.splits)

text \<open>Pushing a child somewhere keeps every path valid, with the same name and type.\<close>

lemma getAt_pushAt:
  "getAt q es = Some x \<Longrightarrow>
   \<exists>x'. getAt q (pushAt p e es) = Some x' \<and> el_name x' = el_name x \<and> el_type x' = el_type x"
proof (induction q arbitrary: p es x)
  case Nil
  then show ?case by simp
next
  case (Cons j q)
  from Cons.prems obtain y where y: "j < length es" "es ! j = y"
    and x: "(if q = [] then Some y else getAt q (el_children y)) = Some x"
    by (auto simp: nthOpt_Some split: option.splits)
  show ?case
  proof (cases p)
    case Nil
    with Cons.prems getAt_append show ?thesis by fastforce
  next
    case (Cons i p')
    show ?thesis
    proof (cases "i < length es")
      case False
      with Cons Cons.prems show ?thesis by (auto simp: nthOpt_def)
    next
      case True
      note i = True
      show ?thesis
      proof (cases "i = j")
        case False
        with Cons i y x show ?thesis
          by (auto simp: nthOpt_def)
      next
        case True
        show ?thesis
        proof (cases "q = []")
          case qn: True
          with Cons i y x True show ?thesis
            by (auto simp: nthOpt_def)
        next
          case qc: False
          with x have "getAt q (el_children y) = Some x" by simp
          from Cons.IH [OF this, of p'] obtain x' where
            "getAt q (pushAt p' e (el_children y)) = Some x'" "el_name x' = el_name x"
            "el_type x' = el_type x" by blast
          with Cons i y True qc show ?thesis
            by (auto simp: nthOpt_def)
        qed
      qed
    qed
  qed
qed

text \<open>The element pushed is found at the end of the children of its parent.\<close>

lemma getAt_pushed:
  "getAt p es = Some n \<Longrightarrow> getAt (p @ [length (el_children n)]) (pushAt p e es) = Some e"
proof (induction p arbitrary: es n)
  case Nil
  then show ?case by simp
next
  case (Cons i p)
  from Cons.prems obtain y where y: "i < length es" "es ! i = y"
    and n: "(if p = [] then Some y else getAt p (el_children y)) = Some n"
    by (auto simp: nthOpt_Some split: option.splits)
  show ?case
  proof (cases "p = []")
    case True
    with y n show ?thesis by (auto simp: nthOpt_def)
  next
    case False
    with n have "getAt p (el_children y) = Some n" by simp
    from Cons.IH [OF this] y False show ?thesis
      by (auto simp: nthOpt_def)
  qed
qed

subsection \<open>Constructors and their classes\<close>

lemma constructorsNamed_iff:
  "constructorsNamed e \<longleftrightarrow>
     (\<forall>m \<in> set (el_children e). (el_type m = Constructor \<longrightarrow> el_name m = el_name e)
        \<and> constructorsNamed m)"
  by (cases e) simp

lemma constructorsNamed_leaf: "el_children e = [] \<Longrightarrow> constructorsNamed e"
  by (subst constructorsNamed_iff) simp

lemma constructorsNamed_created:
  assumes "createElement name ty line lineText lines returnType parameters lineIndex = Inr e"
  shows "constructorsNamed e"
proof -
  from createElement_shape [OF assms] obtain info :: XmlCommentInfo where
    ch: "el_children e = (if ty = Method \<or> ty = Constructor
            then descriptionNodes line (el_comment e) @ parametersNodes line (params info)
                 @ returnsNodes line (returns info)
            else [])" by blast
  have d: "\<forall>c \<in> set (descriptionNodes line v). el_type c = Variable \<and> el_children c = []" for v
    by (auto simp: descriptionNodes_def plainElement_def split: option.splits)
  have r: "\<forall>c \<in> set (returnsNodes line v). el_type c = Variable \<and> el_children c = []" for v
    by (auto simp: returnsNodes_def plainElement_def split: option.splits)
  have p: "\<forall>c \<in> set (parametersNodes line v). el_type c = Variable
      \<and> (\<forall>g \<in> set (el_children c). el_type g = Variable \<and> el_children g = [])" for v
    by (auto simp: parametersNodes_def plainElement_def parameterNode_def split: option.splits)
  have all: "\<forall>c \<in> set (el_children e). el_type c = Variable
      \<and> (\<forall>g \<in> set (el_children c). el_type g = Variable \<and> el_children g = [])"
  proof (cases "ty = Method \<or> ty = Constructor")
    case True
    with ch have eq: "el_children e = descriptionNodes line (el_comment e)
        @ (parametersNodes line (params info) @ returnsNodes line (returns info))"
      by (simp only: if_True)
    show ?thesis
    proof
      fix c assume "c \<in> set (el_children e)"
      then have "c \<in> set (descriptionNodes line (el_comment e))
          \<or> c \<in> set (parametersNodes line (params info))
          \<or> c \<in> set (returnsNodes line (returns info))"
        unfolding eq by (simp only: set_append Un_iff)
      then show "el_type c = Variable
          \<and> (\<forall>g \<in> set (el_children c). el_type g = Variable \<and> el_children g = [])"
      proof (elim disjE)
        assume "c \<in> set (descriptionNodes line (el_comment e))"
        with d [of "el_comment e"] show ?thesis by simp
      next
        assume "c \<in> set (parametersNodes line (params info))"
        with p [of "params info"] show ?thesis by blast
      next
        assume "c \<in> set (returnsNodes line (returns info))"
        with r [of "returns info"] show ?thesis by simp
      qed
    qed
  next
    case False
    with ch show ?thesis by simp
  qed
  have inner: "constructorsNamed c" if "c \<in> set (el_children e)" for c
  proof -
    from all that have leafs: "\<forall>g \<in> set (el_children c). el_type g = Variable \<and> el_children g = []"
      by blast
    have "\<forall>g \<in> set (el_children c). (el_type g = Constructor \<longrightarrow> el_name g = el_name c)
        \<and> constructorsNamed g"
    proof (intro ballI conjI impI)
      fix g assume g: "g \<in> set (el_children c)"
      from leafs g have t: "el_type g = Variable" and l: "el_children g = []" by blast+
      show "el_name g = el_name c" if "el_type g = Constructor"
        using that t by simp
      from l show "constructorsNamed g" by (rule constructorsNamed_leaf)
    qed
    then show ?thesis by (rule iffD2 [OF constructorsNamed_iff])
  qed
  have "\<forall>c \<in> set (el_children e). (el_type c = Constructor \<longrightarrow> el_name c = el_name e)
        \<and> constructorsNamed c"
  proof (intro ballI conjI impI)
    fix c assume c: "c \<in> set (el_children e)"
    from all c have t: "el_type c = Variable" by blast
    show "el_name c = el_name e" if "el_type c = Constructor"
      using that t by simp
    from c show "constructorsNamed c" by (rule inner)
  qed
  then show ?thesis by (rule iffD2 [OF constructorsNamed_iff])
qed

lemma pushAt_direct:
  assumes "p \<noteq> []" "k \<in> set (pushAt p e es)"
  shows "\<exists>k0 \<in> set es. el_name k = el_name k0 \<and> el_type k = el_type k0"
proof -
  from assms(1) obtain i p' where p: "p = i # p'" by (cases p) auto
  show ?thesis
  proof (cases "i < length es")
    case False
    with assms(2) p show ?thesis by (auto simp: nthOpt_def)
  next
    case True
    with assms(2) p have "k \<in> set (es[i := setChildren (es ! i) (pushAt p' e (el_children (es ! i)))])"
      by (simp add: nthOpt_def)
    then have "k = setChildren (es ! i) (pushAt p' e (el_children (es ! i))) \<or> k \<in> set es"
      using set_update_subset_insert by fastforce
    with True show ?thesis by auto
  qed
qed

lemma pushAt_wellNamed:
  assumes "wellNamed es" "constructorsNamed m"
    and "p = [] \<or> (\<exists>c. getAt p es = Some c \<and> (el_type m = Constructor \<longrightarrow> el_name m = el_name c))"
  shows "wellNamed (pushAt p m es)"
  using assms
proof (induction p arbitrary: es)
  case Nil
  then show ?case by (simp add: wellNamed_def)
next
  case (Cons i p)
  from Cons.prems(3) obtain c where c: "getAt (i # p) es = Some c"
    and mc: "el_type m = Constructor \<longrightarrow> el_name m = el_name c" by auto
  from c obtain y where y: "i < length es" "es ! i = y"
    and cy: "(if p = [] then Some y else getAt p (el_children y)) = Some c"
    by (auto simp: nthOpt_Some split: option.splits)
  from Cons.prems(1) y have yok: "constructorsNamed y"
    by (auto simp: wellNamed_def list_all_length)
  then have ych: "\<forall>k \<in> set (el_children y). (el_type k = Constructor \<longrightarrow> el_name k = el_name y)
        \<and> constructorsNamed k"
    by (subst (asm) constructorsNamed_iff)
  have new: "constructorsNamed (setChildren y (pushAt p m (el_children y)))"
  proof (cases "p = []")
    case True
    with cy have "c = y" by simp
    with True ych mc Cons.prems(2) show ?thesis
      by (subst constructorsNamed_iff) auto
  next
    case False
    with cy have g: "getAt p (el_children y) = Some c" by simp
    from ych have "wellNamed (el_children y)" by (simp add: wellNamed_def list_all_iff)
    from Cons.IH [OF this Cons.prems(2)] g mc
    have w: "wellNamed (pushAt p m (el_children y))" by blast
    have "\<forall>k \<in> set (pushAt p m (el_children y)). el_type k = Constructor \<longrightarrow> el_name k = el_name y"
    proof
      fix k assume "k \<in> set (pushAt p m (el_children y))"
      from pushAt_direct [OF False this] obtain k0 where "k0 \<in> set (el_children y)"
        "el_name k = el_name k0" "el_type k = el_type k0" by blast
      with ych show "el_type k = Constructor \<longrightarrow> el_name k = el_name y" by auto
    qed
    with w show ?thesis
      by (subst constructorsNamed_iff) (auto simp: wellNamed_def list_all_iff)
  qed
  from Cons.prems(1) y new show ?case
    by (auto simp: wellNamed_def nthOpt_def list_all_length nth_list_update)
qed

lemma wellNamed_append: "wellNamed es \<Longrightarrow> constructorsNamed e \<Longrightarrow> wellNamed (es @ [e])"
  by (simp add: wellNamed_def)

lemma found_ok: "\<exists>x. r = Inr x \<Longrightarrow> \<exists>v. found r = Inr v"
  by (auto simp: found_def)

lemma found_Some: "found r = Inr (Some e) \<Longrightarrow> r = Inr e"
  by (auto simp: found_def split: sum.splits)

lemma found_created_ok:
  "\<exists>v. found (createElement name ty line lineText lines returnType parameters lineIndex) = Inr v"
  by (rule found_ok) (rule createElement_ok)

lemma created_type:
  "createElement name ty line lineText lines returnType parameters lineIndex = Inr e
   \<Longrightarrow> el_type e = ty \<and> el_name e = name \<and> constructorsNamed e"
  using createElement_shape constructorsNamed_created by blast

lemma binds_lit [simp]: "binds n (lit s) = False"
  by (induction s rule: lit.induct) auto

lemma binds_Plus [simp]: "binds n (Plus r) = binds n r"
  by (simp add: Plus_def)

lemma binds_LazyPlus [simp]: "binds n (LazyPlus r) = binds n r"
  by (simp add: LazyPlus_def)

lemma binds_Opt [simp]: "binds n (Opt r) = False"
  by (simp add: Opt_def)

lemma binds_methodRx: "\<forall>r \<in> set [methodRx1, methodRx2, methodRx3]. binds 1 r"
  by (simp add: methodRx1_def methodRx2_def methodRx3_def)

subsection \<open>The parse functions of the brace-depth scanner\<close>

lemma cs_parseClass_ok: "\<exists>v. cs_parseClass line lineNum lines = Inr v"
  unfolding cs_parseClass_def using found_created_ok by (auto split: option.splits)

lemma cs_parseClass_Some:
  "cs_parseClass line lineNum lines = Inr (Some e) \<Longrightarrow> el_type e = Class \<and> constructorsNamed e"
  unfolding cs_parseClass_def
  by (auto split: option.splits dest!: found_Some dest: created_type)

lemma cs_parseInterface_ok: "\<exists>v. cs_parseInterface line lineNum lines = Inr v"
  unfolding cs_parseInterface_def using found_created_ok by (auto split: option.splits)

lemma cs_parseInterface_Some:
  "cs_parseInterface line lineNum lines = Inr (Some e)
   \<Longrightarrow> el_type e = Interface \<and> constructorsNamed e"
  unfolding cs_parseInterface_def
  by (auto split: option.splits dest!: found_Some dest: created_type)

lemma parseNamespace_ok: "\<exists>v. parseNamespace line lineNum lines = Inr v"
  unfolding parseNamespace_def using found_created_ok by (auto split: option.splits)

lemma parseNamespace_Some:
  "parseNamespace line lineNum lines = Inr (Some e)
   \<Longrightarrow> el_type e = Namespace \<and> constructorsNamed e"
  unfolding parseNamespace_def
  by (auto split: option.splits dest!: found_Some dest: created_type)

lemma parseEnum_ok: "\<exists>v. parseEnum line lineNum lines = Inr v"
  unfolding parseEnum_def using found_created_ok by (auto split: option.splits)

lemma parseEnum_Some:
  "parseEnum line lineNum lines = Inr (Some e) \<Longrightarrow> el_type e = Enum \<and> constructorsNamed e"
  unfolding parseEnum_def
  by (auto split: option.splits dest!: found_Some dest: created_type)

lemma parseProperty_ok: "\<exists>v. parseProperty line lineNum lines = Inr v"
  unfolding parseProperty_def using found_created_ok by (auto split: option.splits)

lemma parseProperty_Some:
  "parseProperty line lineNum lines = Inr (Some e) \<Longrightarrow> el_type e = Property \<and> constructorsNamed e"
  unfolding parseProperty_def
  by (auto split: option.splits dest!: found_Some dest: created_type)

lemma parseField_ok: "\<exists>v. parseField line lineNum lines = Inr v"
  unfolding parseField_def using found_created_ok by (auto split: option.splits)

lemma parseField_Some:
  "parseField line lineNum lines = Inr (Some e) \<Longrightarrow> el_type e = Field \<and> constructorsNamed e"
  unfolding parseField_def
  by (auto split: option.splits if_splits dest!: found_Some dest: created_type)

lemma parseConstructor_ok: "\<exists>v. parseConstructor line lineNum lines className = Inr v"
  unfolding parseConstructor_def using found_created_ok by (auto split: option.splits)

lemma parseConstructor_Some:
  "parseConstructor line lineNum lines className = Inr (Some e)
   \<Longrightarrow> el_type e = Constructor \<and> el_name e = className \<and> constructorsNamed e"
  unfolding parseConstructor_def
  by (auto simp: groupText_def split: option.splits if_splits dest!: found_Some dest: created_type)

lemma parseMethod_ok: "\<exists>v. parseMethod line lineNum lines className = Inr v"
proof (cases "firstMatch [methodRx1, methodRx2, methodRx3] line")
  case None
  then show ?thesis by (simp add: parseMethod_def)
next
  case (Some c)
  from firstMatch_binds [OF Some binds_methodRx] obtain t where "grp c 1 = Some t" by auto
  with Some found_created_ok show ?thesis
    by (simp add: parseMethod_def)
qed

lemma parseMethod_Some:
  "parseMethod line lineNum lines className = Inr (Some e)
   \<Longrightarrow> constructorsNamed e
       \<and> (el_type e = Method \<or> (el_type e = Constructor \<and> el_name e = className))"
  unfolding parseMethod_def
  by (auto simp: groupText_def split: option.splits if_splits dest!: found_Some dest: created_type)

subsection \<open>The scanner state\<close>

lemma scanInv_close:
  "scanInv st \<Longrightarrow> scanInv (closeMethod (closeClass (closeNamespace
      (st\<lparr>cs_braceCount := b\<rparr>))))"
  by (auto simp: scanInv_def validRefs_def closeMethod_def closeClass_def closeNamespace_def
      split: option.splits)

lemma close_braceCount:
  "cs_braceCount (closeMethod (closeClass (closeNamespace st))) = cs_braceCount st"
  by (simp add: closeMethod_def closeClass_def closeNamespace_def)

lemma validRefs_pushAt:
  assumes "validRefs st"
  shows "validRefs (st\<lparr>cs_elements := pushAt p e (cs_elements st)\<rparr>)"
proof -
  have keep: "\<exists>x'. getAt q (pushAt p e (cs_elements st)) = Some x' \<and> el_type x' = el_type x"
    if "getAt q (cs_elements st) = Some x" for q x
    using getAt_pushAt [OF that, of p e] by blast
  from assms show ?thesis
    unfolding validRefs_def
    by (auto split: option.splits dest: keep)
qed

lemma validRefs_append:
  assumes "validRefs st"
  shows "validRefs (st\<lparr>cs_elements := cs_elements st @ [e]\<rparr>)"
  using assms unfolding validRefs_def
  by (auto split: option.splits dest: getAt_append)

lemma scanInv_attach:
  assumes "scanInv st" "constructorsNamed e" "el_type e \<noteq> Constructor"
  shows "scanInv (attach e st)"
proof (cases "cs_currentNamespace st")
  case None
  with assms show ?thesis
    by (simp add: attach_def scanInv_def validRefs_append wellNamed_append)
next
  case (Some ns)
  with assms(1) obtain n where "getAt ns (cs_elements st) = Some n"
    by (auto simp: scanInv_def validRefs_def)
  with assms have "wellNamed (pushAt ns e (cs_elements st))"
    by (intro pushAt_wellNamed) (auto simp: scanInv_def)
  with Some assms(1) show ?thesis
    by (simp add: attach_def scanInv_def validRefs_pushAt)
qed

lemma scanInv_addMember:
  assumes "scanInv st" "constructorsNamed e" "getAt cls (cs_elements st) = Some c"
    "el_type e = Constructor \<longrightarrow> el_name e = el_name c"
  shows "scanInv (addMember cls e st)"
proof -
  from assms have "wellNamed (pushAt cls e (cs_elements st))"
    by (intro pushAt_wellNamed) (auto simp: scanInv_def)
  with assms(1) show ?thesis
    by (simp add: addMember_def scanInv_def validRefs_pushAt)
qed

lemma scanInv_openMethod: "scanInv st \<Longrightarrow> scanInv (openMethod st)"
  by (auto simp: openMethod_def scanInv_def validRefs_def split: option.splits)

lemma scanInv_level: "scanInv st \<Longrightarrow> scanInv (st\<lparr>cs_methodBraceLevel := b\<rparr>)"
  by (auto simp: scanInv_def validRefs_def split: option.splits)

lemma topLevel_inv:
  assumes "scanInv st"
  shows "\<exists>st'. topLevel lines lineNum trimmedLine st = Inr st' \<and> scanInv st'"
proof -
  obtain i where i: "cs_parseInterface trimmedLine lineNum lines = Inr i"
    using cs_parseInterface_ok by blast
  obtain en where en: "parseEnum trimmedLine lineNum lines = Inr en"
    using parseEnum_ok by blast
  show ?thesis
  proof (cases i)
    case (Some e)
    with i cs_parseInterface_Some have "constructorsNamed e" "el_type e \<noteq> Constructor"
      by fastforce+
    with assms i Some show ?thesis
      by (simp add: topLevel_def scanInv_attach)
  next
    case None
    show ?thesis
    proof (cases en)
      case (Some e)
      with en parseEnum_Some have "constructorsNamed e" "el_type e \<noteq> Constructor"
        by fastforce+
      with assms i en None Some show ?thesis
        by (simp add: topLevel_def scanInv_attach)
    next
      case n2: None
      with assms i en None show ?thesis
        by (simp add: topLevel_def)
    qed
  qed
qed

lemma members_inv:
  assumes "scanInv st" "getAt cls (cs_elements st) = Some c"
  shows "\<exists>st'. members lines lineNum trimmedLine cls (el_name c) st = Inr st' \<and> scanInv st'"
proof -
  obtain m where m: "parseMethod trimmedLine lineNum lines (el_name c) = Inr m"
    using parseMethod_ok by blast
  obtain k where k: "parseConstructor trimmedLine lineNum lines (el_name c) = Inr k"
    using parseConstructor_ok by blast
  obtain p where p: "parseProperty trimmedLine lineNum lines = Inr p"
    using parseProperty_ok by blast
  obtain f where f: "parseField trimmedLine lineNum lines = Inr f"
    using parseField_ok by blast
  have add: "scanInv (addMember cls e st')"
    if "scanInv st'" "cs_elements st' = cs_elements st" "constructorsNamed e"
      "el_type e = Constructor \<longrightarrow> el_name e = el_name c" for e st'
    using that assms(2) by (intro scanInv_addMember [where c = c]) auto
  have mm: "scanInv (addMember cls e st')"
    if "m = Some e" "scanInv st'" "cs_elements st' = cs_elements st" for e st'
    using parseMethod_Some [of trimmedLine lineNum lines "el_name c" e] m that
    by (intro add) auto
  have kk: "scanInv (addMember cls e st')"
    if "k = Some e" "scanInv st'" "cs_elements st' = cs_elements st" for e st'
    using parseConstructor_Some [of trimmedLine lineNum lines "el_name c" e] k that
    by (intro add) auto
  have pp: "scanInv (addMember cls e st')"
    if "p = Some e" "scanInv st'" "cs_elements st' = cs_elements st" for e st'
    using parseProperty_Some [of trimmedLine lineNum lines e] p that
    by (intro add) auto
  have ff: "scanInv (addMember cls e st')"
    if "f = Some e" "scanInv st'" "cs_elements st' = cs_elements st" for e st'
    using parseField_Some [of trimmedLine lineNum lines e] f that
    by (intro add) auto
  have om: "scanInv (openMethod st)" "cs_elements (openMethod st) = cs_elements st"
    using assms(1) by (simp_all add: scanInv_openMethod) (simp add: openMethod_def)
  have lv: "scanInv (st\<lparr>cs_methodBraceLevel := cs_braceCount st\<rparr>)"
    "cs_elements (st\<lparr>cs_methodBraceLevel := cs_braceCount st\<rparr>) = cs_elements st"
    using assms(1) by (simp_all add: scanInv_level)
  show ?thesis
  proof (cases "cs_inMethod st")
    case True
    show ?thesis
    proof (cases m)
      case None
      with True m assms(1) show ?thesis by (simp add: members_def)
    next
      case (Some e)
      from mm [OF Some lv] True m Some show ?thesis by (simp add: members_def)
    qed
  next
    case False
    show ?thesis
    proof (cases k)
      case (Some e)
      from kk [OF Some om] False k Some show ?thesis by (simp add: members_def)
    next
      case kn: None
      show ?thesis
      proof (cases m)
        case (Some e)
        from mm [OF Some om] False k kn m Some show ?thesis by (simp add: members_def)
      next
        case mn: None
        show ?thesis
        proof (cases p)
          case (Some e)
          from pp [OF Some assms(1) refl] False k kn m mn p Some show ?thesis
            by (simp add: members_def)
        next
          case pn: None
          show ?thesis
          proof (cases f)
            case (Some e)
            from ff [OF Some assms(1) refl] False k kn m mn p pn f Some show ?thesis
              by (simp add: members_def)
          next
            case fn: None
            with False k kn m mn p pn f assms(1) show ?thesis
              by (simp add: members_def)
          qed
        qed
      qed
    qed
  qed
qed

lemma inClass_inv:
  assumes "scanInv st"
  shows "\<exists>st'. inClass lines lineNum trimmedLine st = Inr st' \<and> scanInv st'"
proof (cases "cs_currentClass st")
  case None
  with topLevel_inv [OF assms, of lines lineNum trimmedLine] show ?thesis
    by (simp add: inClass_def)
next
  case (Some cls)
  with assms obtain c where "getAt cls (cs_elements st) = Some c"
    by (auto simp: scanInv_def validRefs_def)
  with members_inv [OF assms this] Some show ?thesis by (simp add: inClass_def)
qed

lemma openClass_inv:
  assumes "scanInv st" "el_type e = Class" "constructorsNamed e" "cs_currentClass st = None"
  shows "\<exists>st'. openClass e b st = Inr st' \<and> scanInv st'"
proof (cases "cs_currentNamespace st")
  case None
  with assms show ?thesis
    by (auto simp: openClass_def scanInv_def validRefs_def wellNamed_append getAt_last
        simp del: getAt.simps split: option.splits)
next
  case (Some ns)
  with assms(1) obtain n where n: "getAt ns (cs_elements st) = Some n"
    by (auto simp: scanInv_def validRefs_def)
  from assms n have w: "wellNamed (pushAt ns e (cs_elements st))"
    by (intro pushAt_wellNamed) (auto simp: scanInv_def)
  from getAt_pushAt [OF n, of ns e] obtain n' where
    n': "getAt ns (pushAt ns e (cs_elements st)) = Some n'" by blast
  from getAt_pushed [OF n, of e]
  have "getAt (ns @ [length (el_children n)]) (pushAt ns e (cs_elements st)) = Some e" .
  with Some n w n' assms(2) show ?thesis
    by (auto simp: openClass_def scanInv_def validRefs_def split: option.splits)
qed

lemma classOrMember_inv:
  assumes "scanInv st"
  shows "\<exists>st'. classOrMember lines lineNum trimmedLine b st = Inr st' \<and> scanInv st'"
proof (cases "cs_currentClass st = None")
  case False
  with inClass_inv [OF assms, of lines lineNum trimmedLine] show ?thesis
    by (auto simp: classOrMember_def)
next
  case True
  obtain k where k: "cs_parseClass trimmedLine lineNum lines = Inr k"
    using cs_parseClass_ok by blast
  show ?thesis
  proof (cases k)
    case None
    with k True inClass_inv [OF assms, of lines lineNum trimmedLine] show ?thesis
      by (simp add: classOrMember_def)
  next
    case (Some e)
    with k cs_parseClass_Some have "el_type e = Class" "constructorsNamed e" by blast+
    from openClass_inv [OF assms this True] k Some True show ?thesis
      by (simp add: classOrMember_def)
  qed
qed

lemma scopes_inv:
  assumes "scanInv st"
  shows "\<exists>st'. scopes lines lineNum trimmedLine b st = Inr st' \<and> scanInv st'"
proof (cases "cs_currentNamespace st = None \<and> cs_currentClass st = None")
  case False
  with classOrMember_inv [OF assms, of lines lineNum trimmedLine b] show ?thesis
    by (auto simp: scopes_def)
next
  case True
  obtain k where k: "parseNamespace trimmedLine lineNum lines = Inr k"
    using parseNamespace_ok by blast
  show ?thesis
  proof (cases k)
    case None
    with k True classOrMember_inv [OF assms, of lines lineNum trimmedLine b] show ?thesis
      by (simp add: scopes_def)
  next
    case (Some e)
    with k parseNamespace_Some have "constructorsNamed e" by blast
    with assms k Some True show ?thesis
      by (auto simp: scopes_def scanInv_def validRefs_def wellNamed_append getAt_last
          simp del: getAt.simps split: option.splits)
  qed
qed

lemma cs_step_inv:
  assumes "scanInv st"
  shows "\<exists>st'. cs_step lines lineNum line st = Inr st' \<and> scanInv st'"
  using assms scopes_inv [OF scanInv_close [OF assms]]
  by (auto simp: cs_step_def)

lemma cs_loop_inv:
  "scanInv st \<Longrightarrow> \<exists>st'. cs_loop lines lineNum rest st = Inr st' \<and> scanInv st'"
proof (induction rest arbitrary: lineNum st)
  case Nil
  then show ?case by simp
next
  case (Cons line rest)
  from cs_step_inv [OF Cons.prems] obtain st1 where
    "cs_step lines (lineNum + 1) line st = Inr st1" "scanInv st1" by blast
  with Cons.IH [OF this(2), of "lineNum + 1"] show ?case by simp
qed

lemma scanInv_init: "scanInv cs_init"
  by (simp add: scanInv_def validRefs_def cs_init_def wellNamed_def)

subsection \<open>A declaration only looks at the lines up to its own\<close>

lemma nthOpt_take: "i < k \<Longrightarrow> nthOpt (take k ls) i = nthOpt ls i"
  by (simp add: nthOpt_def)

lemma xmlScan_take:
  "\<forall>i \<in> set idx. i < k \<Longrightarrow> xmlScan (take k ls) idx acc f = xmlScan ls idx acc f"
  by (induction idx arbitrary: acc f) (auto simp: nthOpt_take split: option.splits)

lemma blockScan_take:
  "\<forall>j \<in> set idx. j < k \<Longrightarrow> blockScan (take k ls) i idx c = blockScan ls i idx c"
  by (induction idx arbitrary: c) (auto simp: nthOpt_take split: option.splits)

lemma plainScan_take:
  "n < k \<Longrightarrow> \<forall>i \<in> set idx. i < k \<Longrightarrow> plainScan (take k ls) n idx = plainScan ls n idx"
proof (induction idx)
  case Nil
  then show ?case by simp
next
  case (Cons i idx)
  from Cons.prems(1) have "\<forall>j \<in> set [i ..< Suc n]. j < k" by auto
  from blockScan_take [OF this] Cons show ?case
    by (auto simp: nthOpt_take split: option.splits)
qed

lemma downFrom_less: "i \<in> set (downFrom n w) \<Longrightarrow> i < n"
  by (auto simp: downFrom_def)

lemma in_range_take:
  "i < int k \<Longrightarrow> (i < 0 \<or> i \<ge> int (length (take k ls))) = (i < 0 \<or> i \<ge> int (length ls))"
  by auto

lemma extractXmlCommentInfo_take:
  assumes "i < int k"
  shows "extractXmlCommentInfo (take k ls) i = extractXmlCommentInfo ls i"
proof (cases "i < 0 \<or> i \<ge> int (length ls)")
  case True
  with in_range_take [OF assms, of ls] have "i < 0 \<or> i \<ge> int (length (take k ls))" by blast
  with True show ?thesis by (simp only: extractXmlCommentInfo_def if_True)
next
  case False
  with in_range_take [OF assms, of ls] have f: "\<not> (i < 0 \<or> i \<ge> int (length (take k ls)))"
    by blast
  from assms have "\<forall>j \<in> set (downFrom (nat i) 20). j < k"
    by (auto dest!: downFrom_less)
  from xmlScan_take [OF this] have
    "xmlScan (take k ls) (downFrom (nat i) 20) [] False = xmlScan ls (downFrom (nat i) 20) [] False" .
  with False f show ?thesis by (simp only: extractXmlCommentInfo_def if_False)
qed

lemma extractComment_take:
  assumes "i < int k"
  shows "extractComment (take k ls) i = extractComment ls i"
proof (cases "i < 0 \<or> i \<ge> int (length ls)")
  case True
  with in_range_take [OF assms, of ls] have "i < 0 \<or> i \<ge> int (length (take k ls))" by blast
  with True show ?thesis by (simp only: extractComment_def if_True)
next
  case False
  with in_range_take [OF assms, of ls] have f: "\<not> (i < 0 \<or> i \<ge> int (length (take k ls)))"
    by blast
  from assms have a: "\<forall>j \<in> set (downFrom (nat i) 20). j < k"
    by (auto dest!: downFrom_less)
  from assms have b: "\<forall>j \<in> set (downFrom (nat i) 5). j < k"
    by (auto dest!: downFrom_less)
  from assms False have c: "nat i < k" by auto
  from xmlScan_take [OF a] have x:
    "xmlScan (take k ls) (downFrom (nat i) 20) [] False = xmlScan ls (downFrom (nat i) 20) [] False" .
  from plainScan_take [OF c b] have p:
    "plainScan (take k ls) (nat i) (downFrom (nat i) 5) = plainScan ls (nat i) (downFrom (nat i) 5)" .
  from False f x p show ?thesis by (simp only: extractComment_def if_False)
qed

lemma createElement_take:
  assumes "commentIndex line lineIndex < int k"
  shows "createElement name ty line lineText (take k ls) returnType parameters lineIndex
         = createElement name ty line lineText ls returnType parameters lineIndex"
proof -
  from extractXmlCommentInfo_take [OF assms] have x:
    "extractXmlCommentInfo (take k ls) (case lineIndex of None \<Rightarrow> line - 1 | Some i \<Rightarrow> i)
     = extractXmlCommentInfo ls (case lineIndex of None \<Rightarrow> line - 1 | Some i \<Rightarrow> i)"
    by (simp add: commentIndex_def)
  from extractComment_take [OF assms] have c:
    "extractComment (take k ls) (case lineIndex of None \<Rightarrow> line - 1 | Some i \<Rightarrow> i)
     = extractComment ls (case lineIndex of None \<Rightarrow> line - 1 | Some i \<Rightarrow> i)"
    by (simp add: commentIndex_def)
  show ?thesis unfolding createElement_def by (simp only: x c)
qed

lemma created_take:
  "lineNum \<le> int k \<Longrightarrow>
   createElement name ty lineNum lineText (take k ls) returnType parameters None
   = createElement name ty lineNum lineText ls returnType parameters None"
  by (rule createElement_take) (simp add: commentIndex_def)

lemma cs_step_take:
  assumes "lineNum \<le> int k"
  shows "cs_step (take k ls) lineNum line st = cs_step ls lineNum line st"
proof -
  note c = created_take [OF assms]
  have 1: "cs_parseClass l lineNum (take k ls) = cs_parseClass l lineNum ls" for l
    by (simp only: cs_parseClass_def c)
  have 2: "cs_parseInterface l lineNum (take k ls) = cs_parseInterface l lineNum ls" for l
    by (simp only: cs_parseInterface_def c)
  have 3: "parseNamespace l lineNum (take k ls) = parseNamespace l lineNum ls" for l
    by (simp only: parseNamespace_def c)
  have 4: "parseEnum l lineNum (take k ls) = parseEnum l lineNum ls" for l
    by (simp only: parseEnum_def c)
  have 5: "parseConstructor l lineNum (take k ls) cn = parseConstructor l lineNum ls cn" for l cn
    by (simp only: parseConstructor_def c)
  have 6: "parseMethod l lineNum (take k ls) cn = parseMethod l lineNum ls cn" for l cn
    by (simp only: parseMethod_def c)
  have 7: "parseProperty l lineNum (take k ls) = parseProperty l lineNum ls" for l
    by (simp only: parseProperty_def c)
  have 8: "parseField l lineNum (take k ls) = parseField l lineNum ls" for l
    by (simp only: parseField_def c)
  have t: "topLevel (take k ls) lineNum l s = topLevel ls lineNum l s" for l s
    by (simp only: topLevel_def 2 4)
  have m: "members (take k ls) lineNum l cls cn s = members ls lineNum l cls cn s" for l cls cn s
    by (simp only: members_def 5 6 7 8)
  have i: "inClass (take k ls) lineNum l s = inClass ls lineNum l s" for l s
    by (simp only: inClass_def t m)
  have cm: "classOrMember (take k ls) lineNum l b s = classOrMember ls lineNum l b s" for l b s
    by (simp only: classOrMember_def 1 i)
  have sc: "scopes (take k ls) lineNum l b s = scopes ls lineNum l b s" for l b s
    by (simp only: scopes_def 3 cm)
  show ?thesis by (simp only: cs_step_def sc)
qed

lemma cs_loop_take:
  "lineNum + int (length rest) \<le> int k \<Longrightarrow>
   cs_loop (take k ls) lineNum rest st = cs_loop ls lineNum rest st"
proof (induction rest arbitrary: lineNum st)
  case Nil
  then show ?case by simp
next
  case (Cons line rest)
  from Cons.prems have "lineNum + 1 \<le> int k" by simp
  from cs_step_take [OF this] Cons.IH [of "lineNum + 1"] Cons.prems show ?case
    by (simp split: sum.splits)
qed

subsection \<open>The scan\<close>

text \<open>
  Claim C3. For every sequence of lines the scan returns a list of elements: no read
  of a line or of a capture group throws and no reference of the scanner dangles. For
  every \<open>k\<close>, the file cut after its first \<open>k\<close> lines gives exactly the elements that the
  scan of the whole file has built after \<open>k\<close> lines, with the frames that are open at
  that point left open: a class frame that is still open at the end of the input
  refers to a class element of the result, which has the children found so far.
\<close>

theorem C3_never_raises:
  "(\<exists>es. cs_parse lines = Inr es)
   \<and> (\<exists>st. scanned lines k = Inr st \<and> cs_parse (take k lines) = Inr (cs_elements st)
          \<and> validRefs st)"
proof -
  from cs_loop_inv [OF scanInv_init, of lines 0 lines] have total: "\<exists>es. cs_parse lines = Inr es"
    by (auto simp: cs_parse_def)
  from cs_loop_inv [OF scanInv_init, of lines 0 "take k lines"] obtain st where
    st: "scanned lines k = Inr st" "scanInv st"
    by (auto simp: scanned_def)
  have "cs_loop (take k lines) 0 (take k lines) cs_init = cs_loop lines 0 (take k lines) cs_init"
    by (rule cs_loop_take) simp
  with st have "cs_parse (take k lines) = Inr (cs_elements st)"
    by (simp add: cs_parse_def scanned_def)
  with st total show ?thesis by (auto simp: scanInv_def)
qed

lemma open_scanned: "scanned openLines 3 = Inr openState"
  by code_simp

theorem C3_never_raises_witness:
  "scanned openLines 3 = Inr openState \<and> cs_currentClass openState = Some [0]
   \<and> cs_parse (take 3 openLines) = Inr (cs_elements openState) \<and> validRefs openState"
proof -
  from C3_never_raises [of openLines 3] open_scanned
  have "cs_parse (take 3 openLines) = Inr (cs_elements openState) \<and> validRefs openState"
    by auto
  with open_scanned show ?thesis by (simp add: openState_def)
qed






text \<open>
  The accessor test reads the whole line: the constructor of \<^verbatim>\<open>Bar\<close> below has a
  parameter \<^verbatim>\<open>settings\<close> and its body on the same line, so the line contains \<^verbatim>\<open>{\<close> and
  \<^verbatim>\<open>set\<close>. The constructor pattern captures the name of the class, and the line is
  classified neither as a constructor nor as a method: the class has no children.
\<close>

lemma accessor_guard:
  "firstMatch [constructorRx1, constructorRx2, constructorRx3] ''public Bar(Settings settings) { }''
     = Some [(0, ''public Bar(Settings settings)''), (2, ''Settings settings''), (1, ''Bar'')]
   \<and> includesStr ''public Bar(Settings settings) { }'' ''{''
   \<and> includesStr ''public Bar(Settings settings) { }'' ''set''
   \<and> cs_parse [''class Bar {'', ''public Bar(Settings settings) { }''] =
       Inr [CodeElement ''Bar'' Class Default 1 [] None None None None None]"
  by code_simp



section \<open>The documented method\<close>

text \<open>
  Claim C8, at its input. The scan of the documented method \<^verbatim>\<open>Add\<close> inside a class
  gives the element \<open>addElement\<close>: its comment is the summary, and the documentation
  pass gives the parameter descriptions \<open>[(''a'', ''first'')]\<close>, which become the children
  of the parameters node. The field \<^verbatim>\<open>params\<close> of the element itself is never
  assigned and stays undefined.
\<close>

theorem C8_documented_method:
  "cs_parse addLines = Inr [CodeElement ''C'' Class Default 1 [addElement] None None None None None]
   \<and> el_comment addElement = Some ''Add two numbers''
   \<and> el_params addElement = None
   \<and> extractXmlCommentInfo addLines 3 = Inr addInfo
   \<and> params addInfo = Some [(''a'', ''first'')]"
  by code_simp


section \<open>The options object of a default export\<close>

text \<open>
  Claim C4, amended: with the default export laid out over five lines, one brace per
  line, the scan gives a root element named \<^verbatim>\<open>export default\<close> with exactly one child,
  named \<^verbatim>\<open>methods\<close>, which has exactly one child, the method \<^verbatim>\<open>foo\<close>.
\<close>

theorem C4_options_object:
  "js_parse optionsLines 0 =
     Inr [plainElement ''export default'' Class 1 None
            [CodeElement ''methods'' Property Default 2
               [CodeElement ''foo'' Method Default 3 [] None None (Some []) None None]
               None None None None None]]"
  by code_simp

text \<open>
  Claim C4 as stated fails on the input written on one line: the braces of the line
  balance, the keys of the object are not scanned, and the root has no children.
\<close>

theorem C4_one_line_counterexample:
  "js_parse [''export default { methods: { foo() {} } }''] 0 =
     Inr [plainElement ''export default'' Class 1 None []]"
  by code_simp


section \<open>Line numbers of a script block\<close>

text \<open>
  Claim C5, at two failing inputs. In a Vue file whose script tag is on line 1, a
  default export declared on line 2 of the file is reported on line 3 (the offset
  passed on is the line of the script tag plus one, and it is added to the position
  in the fragment, which counts from 1), and a function declared on line 2 of the file
  is reported on line 1 (an ordinary declaration gets its position in the fragment,
  without the offset).
\<close>

theorem C5_script_lines:
  "vue_parse [''<script>'', ''export default {'', ''}'', ''</script>''] =
     Inr [plainElement ''script'' Module 1 None [plainElement ''export default'' Class 3 None []]]
   \<and> vue_parse [''<script>'', ''function f() {}'', ''</script>''] =
     Inr [plainElement ''script'' Module 1 None
            [CodeElement ''f'' Function Default 1 [] None None None None None]]"
  by code_simp


section \<open>Markup\<close>

subsection \<open>The scanner of HTML files is flat\<close>

text \<open>
  \<^verbatim>\<open>HtmlParser.parse\<close> is the scanner of markup that the dispatcher reaches. A line
  gives at most one element, for a script tag or for one of the eight main tags; the
  element is built as a module, which gets no children, on the number of its line.
\<close>

lemma parseScriptTag_ok: "\<exists>v. parseScriptTag line lineNum lines = Inr v"
  unfolding parseScriptTag_def using found_created_ok by (auto split: option.splits)

lemma parseMainElement_ok: "\<exists>v. parseMainElement line lineNum lines = Inr v"
  unfolding parseMainElement_def using found_created_ok by (auto split: option.splits)

lemma created_module:
  "createElement name Module line lineText lines returnType parameters lineIndex = Inr e
   \<Longrightarrow> el_type e = Module \<and> el_children e = [] \<and> el_line e = line"
  using createElement_shape [of name Module line lineText lines returnType parameters lineIndex e]
  by auto

lemma parseScriptTag_Some:
  "parseScriptTag line lineNum lines = Inr (Some e)
   \<Longrightarrow> el_type e = Module \<and> el_children e = [] \<and> el_line e = lineNum"
  unfolding parseScriptTag_def
  by (auto split: option.splits dest!: found_Some dest: created_module)

lemma parseMainElement_Some:
  "parseMainElement line lineNum lines = Inr (Some e)
   \<Longrightarrow> el_type e = Module \<and> el_children e = [] \<and> el_line e = lineNum"
  unfolding parseMainElement_def
  by (auto split: option.splits if_splits dest!: found_Some dest: created_module)

lemma html_step_cases:
  "html_step lines lineNum line elements = Inr elements
   \<or> (\<exists>e. html_step lines lineNum line elements = Inr (elements @ [e])
          \<and> el_type e = Module \<and> el_children e = [] \<and> el_line e = lineNum)"
proof -
  from parseScriptTag_ok obtain s where s: "parseScriptTag (trim line) lineNum lines = Inr s"
    by blast
  from parseMainElement_ok obtain m where m: "parseMainElement (trim line) lineNum lines = Inr m"
    by blast
  show ?thesis
  proof (cases s)
    case None
    show ?thesis
    proof (cases m)
      case None
      with \<open>s = None\<close> s m show ?thesis by (simp add: html_step_def Let_def)
    next
      case (Some e)
      with m parseMainElement_Some have "el_type e = Module \<and> el_children e = [] \<and> el_line e = lineNum"
        by blast
      with Some \<open>s = None\<close> s m show ?thesis by (simp add: html_step_def Let_def)
    qed
  next
    case (Some e)
    with s parseScriptTag_Some have "el_type e = Module \<and> el_children e = [] \<and> el_line e = lineNum"
      by blast
    with Some s show ?thesis by (simp add: html_step_def Let_def)
  qed
qed

lemma html_loop_flat:
  assumes "0 \<le> lineNum"
    and "list_all (\<lambda>e. el_type e = Module \<and> el_children e = [] \<and> 1 \<le> el_line e
            \<and> el_line e \<le> lineNum) elements"
    and "sorted_wrt (<) (map el_line elements)"
  shows "\<exists>es. html_loop lines lineNum rest elements = Inr es
     \<and> list_all (\<lambda>e. el_type e = Module \<and> el_children e = [] \<and> 1 \<le> el_line e
            \<and> el_line e \<le> lineNum + int (length rest)) es
     \<and> sorted_wrt (<) (map el_line es)"
  using assms
proof (induction rest arbitrary: lineNum elements)
  case Nil
  then show ?case by simp
next
  case (Cons line rest)
  let ?P = "\<lambda>n e. el_type e = Module \<and> el_children e = [] \<and> 1 \<le> el_line e \<and> el_line e \<le> n"
  from Cons.prems have up: "list_all (?P (lineNum + 1)) elements"
    by (auto simp: list_all_iff)
  from html_step_cases [of lines "lineNum + 1" line elements]
  obtain elements' where
    st: "html_step lines (lineNum + 1) line elements = Inr elements'"
    and el: "list_all (?P (lineNum + 1)) elements'"
    and so: "sorted_wrt (<) (map el_line elements')"
  proof
    assume "html_step lines (lineNum + 1) line elements = Inr elements"
    with up Cons.prems that show thesis by blast
  next
    assume "\<exists>e. html_step lines (lineNum + 1) line elements = Inr (elements @ [e])
          \<and> el_type e = Module \<and> el_children e = [] \<and> el_line e = lineNum + 1"
    then obtain e where e: "html_step lines (lineNum + 1) line elements = Inr (elements @ [e])"
      "el_type e = Module" "el_children e = []" "el_line e = lineNum + 1"
      by blast
    from e up Cons.prems have "list_all (?P (lineNum + 1)) (elements @ [e])" by simp
    moreover from e Cons.prems have "sorted_wrt (<) (map el_line (elements @ [e]))"
      by (auto simp: sorted_wrt_append list_all_iff)
    ultimately show thesis using e that by blast
  qed
  from Cons.prems have "0 \<le> lineNum + 1" by simp
  from Cons.IH [OF this el so] obtain es where
    es: "html_loop lines (lineNum + 1) rest elements' = Inr es"
      "list_all (?P (lineNum + 1 + int (length rest))) es"
      "sorted_wrt (<) (map el_line es)"
    by blast
  have "lineNum + 1 + int (length rest) = lineNum + int (length (line # rest))" by simp
  with es have "list_all (?P (lineNum + int (length (line # rest)))) es" by simp
  with es st show ?case by simp
qed

text \<open>
  Claim C6, amended. The scanner of HTML files returns for every input a list of
  module elements without children, at most one for a line and in the order of the
  lines: it keeps no stack of open tags and never nests. For the div with the span
  inside, written on one line or with one tag on a line, it gives exactly one element,
  on line 1 and without children; the span gives no element. The statement leaves the
  name of that element open.
\<close>

theorem C6_markup_flat:
  "(\<exists>es. html_parse lines = Inr es
      \<and> list_all (\<lambda>e. el_type e = Module \<and> el_children e = [] \<and> 1 \<le> el_line e
            \<and> el_line e \<le> int (length lines)) es
      \<and> sorted_wrt (<) (map el_line es))
   \<and> (\<exists>name. html_parse [''<div id=\"x\"><span>...</span></div>''] =
         Inr [CodeElement name Module Default 1 [] None None None None None])
   \<and> (\<exists>name. html_parse markupLines =
         Inr [CodeElement name Module Default 1 [] None None None None None])"
proof (intro conjI)
  from html_loop_flat [of 0 "[]" lines lines]
  show "\<exists>es. html_parse lines = Inr es
      \<and> list_all (\<lambda>e. el_type e = Module \<and> el_children e = [] \<and> 1 \<le> el_line e
            \<and> el_line e \<le> int (length lines)) es
      \<and> sorted_wrt (<) (map el_line es)"
    by (simp add: html_parse_def)
next
  have "html_parse [''<div id=\"x\"><span>...</span></div>''] =
         Inr [CodeElement ''div'' Module Default 1 [] None None None None None]"
    by code_simp
  then show "\<exists>name. html_parse [''<div id=\"x\"><span>...</span></div>''] =
         Inr [CodeElement name Module Default 1 [] None None None None None]"
    by blast
next
  have "html_parse markupLines =
         Inr [CodeElement ''div'' Module Default 1 [] None None None None None]"
    by code_simp
  then show "\<exists>name. html_parse markupLines =
         Inr [CodeElement name Module Default 1 [] None None None None None]"
    by blast
qed

text \<open>
  Claim C6 as stated fails on its input: the scanner of HTML files gives one element
  without children, and its name is the name of the tag, since the part \<^verbatim>\<open>[^>]*\<close> of
  the pattern of \<^verbatim>\<open>parseMainElement\<close> runs over the id attribute and the optional
  group after it then matches the empty string.
\<close>

theorem C6_one_line_counterexample:
  "html_parse [''<div id=\"x\"><span>...</span></div>''] =
     Inr [CodeElement ''div'' Module Default 1 [] None None None None None]"
  by code_simp

subsection \<open>The tag stack\<close>

text \<open>
  The stack of open tags is in \<^verbatim>\<open>VueParser.parseTemplateContent\<close>, a private method
  that nothing calls: \<^verbatim>\<open>VueParser.parse\<close> skips the template region. With one tag on a
  line it would nest the span under an element named after the id; with the end tag on
  the line of the start tag it pushes no frame and the element has no children.
\<close>

lemma parseTemplateContent_markup:
  "parseTemplateContent markupLines 1 =
     Inr [plainElement ''x'' Module 1 None [plainElement ''span'' Module 2 None []]]
   \<and> parseTemplateContent [''<div id=\"x\"><span>...</span></div>''] 1 =
     Inr [plainElement ''x'' Module 1 None []]
   \<and> vue_parse markupLines = Inr []"
  by code_simp


section \<open>A file without region tags\<close>

text \<open>
  The scanner collects script lines only after a script tag, and a script tag emits an
  element: at the end of the loop the condition of the fallback,
  \<^verbatim>\<open>elements.length === 0 && scriptContent.length > 0\<close>, never holds, and the result is
  always the list of the elements.
\<close>

lemma length_setChildrenAt: "length (setChildrenAt p cs es) = length es"
  by (cases p) (auto split: option.splits)

lemma noFallback_styleTags: "noFallback st \<Longrightarrow> noFallback (styleTags n l st)"
  by (auto simp: noFallback_def styleTags_def)

lemma noFallback_closeScript: "closeScript st = Inr st' \<Longrightarrow> noFallback st'"
  by (auto simp: noFallback_def closeScript_def split: option.splits sum.splits if_splits)

lemma noFallback_step:
  assumes "vue_step n line st = Inr st'" "noFallback st"
  shows "noFallback st'"
  using assms
  unfolding vue_step_def Let_def noFallback_def closeScript_def styleTags_def
  by (auto split: if_splits option.splits sum.splits)

lemma noFallback_loop:
  "vue_loop n ls st = Inr st' \<Longrightarrow> noFallback st \<Longrightarrow> noFallback st'"
proof (induction ls arbitrary: n st)
  case Nil
  then show ?case by simp
next
  case (Cons l ls)
  from Cons.prems(1) obtain st1 where s: "vue_step (n + 1) l st = Inr st1"
    and r: "vue_loop (n + 1) ls st1 = Inr st'"
    by (auto split: sum.splits)
  from Cons.IH [OF r noFallback_step [OF s Cons.prems(2)]] show ?case .
qed

lemma vue_fallback_dead:
  "vue_loop 0 lines vue_init = Inr st \<Longrightarrow>
   \<not> (length (vue_elements st) = 0 \<and> length (vue_scriptContent st) > 0)"
  using noFallback_loop [of 0 lines vue_init st]
  by (auto simp: noFallback_def vue_init_def)

lemma vue_parse_elements:
  "vue_parse lines = (case vue_loop 0 lines vue_init of Inl e \<Rightarrow> Inl e | Inr st \<Rightarrow> Inr (vue_elements st))"
  using vue_fallback_dead [of lines]
  by (auto simp: vue_parse_def split: sum.splits)

text \<open>
  Claim C7, at a failing input. A file that consists of one function declaration and
  has no template, script or style tag gives the empty list, although the script
  scanner finds the function in the same lines.
\<close>

theorem C7_no_tags:
  "vue_parse [''function f() {}''] = Inr []
   \<and> js_parse [''function f() {}''] 0 =
       Inr [CodeElement ''f'' Function Default 1 [] None None None None None]"
  by code_simp


section \<open>The dispatcher\<close>

text \<open>
  Claim C9. For a path whose extension (from the last dot on, in lower case) has no
  class in the registry, \<^verbatim>\<open>createParser\<close> returns null; after \<^verbatim>\<open>registerParser(k, f)\<close>
  on any registry, \<^verbatim>\<open>createParser\<close> returns \<open>f\<close> for every path whose extension is \<open>k\<close>
  in lower case, whatever \<open>k\<close> was mapped to before.
\<close>

theorem C9_dispatch:
  "(registry (extension filePath) = None \<longrightarrow> createParser registry filePath = None)
   \<and> (extension filePath = toLowerCase k \<longrightarrow>
        createParser (registerParser registry k f) filePath = Some f)"
  by (simp add: createParser_def registerParser_def)

theorem C9_dispatch_witness:
  "parsers (extension ''notes.txt'') = None \<and> createParser parsers ''notes.txt'' = None
   \<and> extension ''Main.cs'' = toLowerCase ''.CS''
   \<and> createParser (registerParser parsers ''.CS'' VueParser) ''Main.cs'' = Some VueParser"
proof -
  have h1: "parsers (extension ''notes.txt'') = None" by code_simp
  have h2: "extension ''Main.cs'' = toLowerCase ''.CS''" by code_simp
  from C9_dispatch [where registry = parsers and filePath = "''notes.txt''"] h1
  have c1: "createParser parsers ''notes.txt'' = None"
    by blast
  from C9_dispatch [where registry = parsers and filePath = "''Main.cs''" and k = "''.CS''"
      and f = VueParser] h2
  have c2: "createParser (registerParser parsers ''.CS'' VueParser) ''Main.cs'' = Some VueParser"
    by blast
  from h1 h2 c1 c2 show ?thesis by blast
qed

end
